theory Spec2Isabelle
  imports
    Complex_Main
    "HOL-Library.Char_ord"
    "HOL-Library.List_Lexorder"
    "HOL-Library.Multiset"
    "HOL-Library.Monad_Syntax"
begin

section \<open>JavaScript values used by the service\<close>

text \<open>
  The repository holds three evolutions of one Cloudflare Pages function:
  \<^item> \<^verbatim>\<open>functions/api.js\<close>: the luxon variant with the extended field set and no
    structural pre-filter;
  \<^item> \<^verbatim>\<open>unnamed/part_000\<close>: the variant that computes every field with
    \<^verbatim>\<open>Intl.DateTimeFormat\<close> and \<^verbatim>\<open>Date\<close>, with the structural pre-filter;
  \<^item> \<^verbatim>\<open>unnamed/part_001\<close>: the luxon variant with the basic field set and the
    structural pre-filter.

  A JavaScript number is \<open>NaN\<close> or a finite value. Every finite double is a rational, and
  the model computes on rationals exactly. The values the source stores are integers far
  below \<open>2^53\<close>; the only non-integers are the quotients handed to \<^verbatim>\<open>Math.floor\<close> and
  \<^verbatim>\<open>Math.round\<close>, whose divisors are the literals 60, 60000, 86400000 and 7, so a
  quotient is either exactly on a rounding boundary (and then exact as a double) or
  further from it than the rounding error of a double. Infinities do not arise: the
  source divides by these literals only.
\<close>

datatype number = NaN | Num rat

text \<open>\<^verbatim>\<open>x + y\<close>, \<^verbatim>\<open>x - y\<close> and \<^verbatim>\<open>x * y\<close>: \<open>NaN\<close> is absorbing.\<close>

instantiation number :: "{plus, minus, times}"
begin

definition plus_number :: "number \<Rightarrow> number \<Rightarrow> number" where
  "plus_number x y = (case (x, y) of (Num a, Num b) \<Rightarrow> Num (a + b) | _ \<Rightarrow> NaN)"

definition minus_number :: "number \<Rightarrow> number \<Rightarrow> number" where
  "minus_number x y = (case (x, y) of (Num a, Num b) \<Rightarrow> Num (a - b) | _ \<Rightarrow> NaN)"

definition times_number :: "number \<Rightarrow> number \<Rightarrow> number" where
  "times_number x y = (case (x, y) of (Num a, Num b) \<Rightarrow> Num (a * b) | _ \<Rightarrow> NaN)"

instance ..

end

text \<open>\<^verbatim>\<open>x / c\<close> for a literal \<open>c\<close>, which is never zero in the source.\<close>

definition num_div :: "number \<Rightarrow> rat \<Rightarrow> number" where
  "num_div x c = (case x of Num a \<Rightarrow> (if c = 0 then NaN else Num (a / c)) | NaN \<Rightarrow> NaN)"

text \<open>
  \<^verbatim>\<open>x % c\<close> for an integer literal \<open>c\<close>: the remainder of the division that
  truncates towards zero, so it takes the sign of the dividend.
\<close>

definition num_rem :: "number \<Rightarrow> int \<Rightarrow> number" where
  "num_rem x c =
     (case x of
        Num a \<Rightarrow>
          (if c = 0 then NaN
           else let q = a / of_int c;
                    t = (if 0 \<le> q then \<lfloor>q\<rfloor> else \<lceil>q\<rceil>)
                in Num (a - of_int c * of_int t))
      | NaN \<Rightarrow> NaN)"

text \<open>\<^verbatim>\<open>x >= 0\<close>: a comparison with \<open>NaN\<close> is false.\<close>

definition num_ge0 :: "number \<Rightarrow> bool" where
  "num_ge0 x = (case x of Num a \<Rightarrow> 0 \<le> a | NaN \<Rightarrow> False)"

definition Math_abs :: "number \<Rightarrow> number" where
  "Math_abs x = (case x of Num a \<Rightarrow> Num \<bar>a\<bar> | NaN \<Rightarrow> NaN)"

definition Math_floor :: "number \<Rightarrow> number" where
  "Math_floor x = (case x of Num a \<Rightarrow> Num (of_int \<lfloor>a\<rfloor>) | NaN \<Rightarrow> NaN)"

text \<open>\<^verbatim>\<open>Math.round\<close> rounds to the nearest integer, a tie towards \<open>+\<infinity>\<close>.\<close>

definition Math_round :: "number \<Rightarrow> number" where
  "Math_round x = (case x of Num a \<Rightarrow> Num (of_int \<lfloor>a + 1 / 2\<rfloor>) | NaN \<Rightarrow> NaN)"

subsection \<open>Strings\<close>

text \<open>
  A string is a list of characters, a character standing for one code unit of the
  JavaScript string; the identifiers, parameter names and digits the claims are about are
  ASCII. Strings are ordered by their code units (the order of \<open>char\<close>, lifted to lists
  lexicographically), as the default \<^verbatim>\<open>sort()\<close> of JavaScript orders them.
\<close>

text \<open>The decimal digits of a natural number, without leading zeros.\<close>

fun decimal :: "nat \<Rightarrow> string" where
  "decimal n =
     (if n < 10 then [''0123456789'' ! n]
      else decimal (n div 10) @ [''0123456789'' ! (n mod 10)])"

declare decimal.simps [simp del]

text \<open>
  \<^verbatim>\<open>String(x)\<close> and the conversion inside a template literal. An integer below
  \<open>10^21\<close> in magnitude prints its decimal digits; any other finite number prints by the
  platform's shortest round-trip algorithm, which is taken as the parameter
  \<open>toStringOther\<close>.
\<close>

definition String_number :: "(rat \<Rightarrow> string) \<Rightarrow> number \<Rightarrow> string" where
  "String_number toStringOther x =
     (case x of
        NaN \<Rightarrow> ''NaN''
      | Num a \<Rightarrow>
          (if a = of_int \<lfloor>a\<rfloor> \<and> \<bar>a\<bar> < 10 ^ 21
           then (if a < 0 then ''-'' else '''') @ decimal (nat \<bar>\<lfloor>a\<rfloor>\<bar>)
           else toStringOther a))"

text \<open>\<^verbatim>\<open>s.padStart(targetLength, padString)\<close>.\<close>

definition padStart :: "nat \<Rightarrow> string \<Rightarrow> string \<Rightarrow> string" where
  "padStart targetLength padString s =
     (if targetLength \<le> length s \<or> padString = [] then s
      else take (targetLength - length s)
             (concat (replicate (targetLength - length s) padString)) @ s)"

text \<open>\<^verbatim>\<open>xs.join(sep)\<close> on an array of strings.\<close>

fun join :: "string \<Rightarrow> string list \<Rightarrow> string" where
  "join sep [] = []"
| "join sep [x] = x"
| "join sep (x # y # ys) = x @ sep @ join sep (y # ys)"

section \<open>Dates\<close>

text \<open>
  A \<^verbatim>\<open>Date\<close> object is its time value: an integral number of milliseconds since
  1970-01-01T00:00:00Z, or \<open>None\<close> for an Invalid Date. The source mutates only Date
  objects that it has just created and shares with nothing, so a mutation is a rebinding.
  The functions follow the abstract operations of ECMAScript (\<open>Day\<close>,
  \<open>TimeWithinDay\<close>, \<open>WeekDay\<close>, \<open>MakeDay\<close>, \<open>MakeDate\<close>, \<open>TimeClip\<close>) on the proleptic
  Gregorian calendar.
\<close>

type_synonym Date = "int option"

definition msPerDay :: int where
  "msPerDay = 86400000"

text \<open>The day number (days since 1970-01-01) of year \<open>y\<close>, month \<open>m\<close> (1 to 12), day \<open>d\<close>.\<close>

definition days_from_civil :: "int \<Rightarrow> int \<Rightarrow> int \<Rightarrow> int" where
  "days_from_civil y m d =
     (let y' = (if m \<le> 2 then y - 1 else y);
          era = y' div 400;
          yoe = y' - era * 400;
          mp = (m + 9) mod 12;
          doy = (153 * mp + 2) div 5 + d - 1;
          doe = yoe * 365 + yoe div 4 - yoe div 100 + doy
      in era * 146097 + doe - 719468)"

text \<open>The year, month (1 to 12) and day of the month of a day number.\<close>

definition civil_from_days :: "int \<Rightarrow> int \<times> int \<times> int" where
  "civil_from_days z0 =
     (let z = z0 + 719468;
          era = z div 146097;
          doe = z - era * 146097;
          yoe = (doe - doe div 1460 + doe div 36524 - doe div 146096) div 365;
          doy = doe - (365 * yoe + yoe div 4 - yoe div 100);
          mp = (5 * doy + 2) div 153;
          d = doy - (153 * mp + 2) div 5 + 1;
          m = (if mp < 10 then mp + 3 else mp - 9);
          y = yoe + era * 400 + (if m \<le> 2 then 1 else 0)
      in (y, m, d))"

definition Day :: "int \<Rightarrow> int" where
  "Day t = t div msPerDay"

definition TimeWithinDay :: "int \<Rightarrow> int" where
  "TimeWithinDay t = t mod msPerDay"

definition YearFromTime :: "int \<Rightarrow> int" where
  "YearFromTime t = fst (civil_from_days (Day t))"

text \<open>\<open>MonthFromTime\<close> counts months from 0, as \<^verbatim>\<open>getUTCMonth\<close> does.\<close>

definition MonthFromTime :: "int \<Rightarrow> int" where
  "MonthFromTime t = fst (snd (civil_from_days (Day t))) - 1"

definition DateFromTime :: "int \<Rightarrow> int" where
  "DateFromTime t = snd (snd (civil_from_days (Day t)))"

text \<open>\<open>WeekDay\<close>: 0 is Sunday; 1970-01-01 was a Thursday.\<close>

definition WeekDay :: "int \<Rightarrow> int" where
  "WeekDay t = (Day t + 4) mod 7"

text \<open>\<open>MakeDay\<close> with a month counted from 0; a month or a day out of range carries over.\<close>

definition MakeDay :: "int \<Rightarrow> int \<Rightarrow> int \<Rightarrow> int" where
  "MakeDay year month date =
     days_from_civil (year + month div 12) (month mod 12 + 1) 1 + date - 1"

definition MakeDate :: "int \<Rightarrow> int \<Rightarrow> int" where
  "MakeDate day time = day * msPerDay + time"

text \<open>\<open>TimeClip\<close> on an integral time value.\<close>

definition TimeClip :: "int \<Rightarrow> Date" where
  "TimeClip t = (if \<bar>t\<bar> \<le> 8640000000000000 then Some t else None)"

text \<open>\<open>ToIntegerOrInfinity\<close> on a finite number truncates towards zero.\<close>

definition truncate :: "rat \<Rightarrow> int" where
  "truncate a = (if 0 \<le> a then \<lfloor>a\<rfloor> else \<lceil>a\<rceil>)"

text \<open>
  \<^verbatim>\<open>new Date(value)\<close> on a number: \<open>TimeClip\<close> compares the number with the limit
  and then truncates it.
\<close>

definition new_Date :: "number \<Rightarrow> Date" where
  "new_Date v =
     (case v of
        NaN \<Rightarrow> None
      | Num a \<Rightarrow> (if \<bar>a\<bar> \<le> 8640000000000000 then Some (truncate a) else None))"

text \<open>\<^verbatim>\<open>date.getTime()\<close>, also the value of a Date in \<^verbatim>\<open>a - b\<close>.\<close>

definition getTime :: "Date \<Rightarrow> number" where
  "getTime date = (case date of None \<Rightarrow> NaN | Some t \<Rightarrow> Num (of_int t))"

definition getUTCFullYear :: "Date \<Rightarrow> number" where
  "getUTCFullYear date = (case date of None \<Rightarrow> NaN | Some t \<Rightarrow> Num (of_int (YearFromTime t)))"

definition getUTCMonth :: "Date \<Rightarrow> number" where
  "getUTCMonth date = (case date of None \<Rightarrow> NaN | Some t \<Rightarrow> Num (of_int (MonthFromTime t)))"

definition getUTCDate :: "Date \<Rightarrow> number" where
  "getUTCDate date = (case date of None \<Rightarrow> NaN | Some t \<Rightarrow> Num (of_int (DateFromTime t)))"

definition getUTCDay :: "Date \<Rightarrow> number" where
  "getUTCDay date = (case date of None \<Rightarrow> NaN | Some t \<Rightarrow> Num (of_int (WeekDay t)))"

definition getUTCHours :: "Date \<Rightarrow> number" where
  "getUTCHours date =
     (case date of None \<Rightarrow> NaN | Some t \<Rightarrow> Num (of_int (t div 3600000 mod 24)))"

definition getUTCMinutes :: "Date \<Rightarrow> number" where
  "getUTCMinutes date =
     (case date of None \<Rightarrow> NaN | Some t \<Rightarrow> Num (of_int (t div 60000 mod 60)))"

definition getUTCSeconds :: "Date \<Rightarrow> number" where
  "getUTCSeconds date =
     (case date of None \<Rightarrow> NaN | Some t \<Rightarrow> Num (of_int (t div 1000 mod 60)))"

text \<open>
  \<^verbatim>\<open>date.setUTCDate(v)\<close>: the new time value of the Date (the model returns the
  updated object).
\<close>

definition setUTCDate :: "Date \<Rightarrow> number \<Rightarrow> Date" where
  "setUTCDate date v =
     (case (date, v) of
        (Some t, Num a) \<Rightarrow>
          TimeClip (MakeDate (MakeDay (YearFromTime t) (MonthFromTime t) (truncate a))
                      (TimeWithinDay t))
      | _ \<Rightarrow> None)"

text \<open>
  \<^verbatim>\<open>Date.UTC(year, month, day)\<close>; a year from 0 to 99 means 1900 plus that year.
\<close>

definition Date_UTC :: "number \<Rightarrow> number \<Rightarrow> number \<Rightarrow> number" where
  "Date_UTC year month day =
     (case (year, month, day) of
        (Num y, Num m, Num d) \<Rightarrow>
          (let yi = truncate y;
               yr = (if 0 \<le> yi \<and> yi \<le> 99 then 1900 + yi else yi)
           in getTime (TimeClip (MakeDate (MakeDay yr (truncate m) (truncate d)) 0)))
      | _ \<Rightarrow> NaN)"

subsection \<open>Parsing a date-time string\<close>

text \<open>
  \<^verbatim>\<open>new Date(string)\<close>. The two shapes the source builds are
  \<^verbatim>\<open>YYYY-MM-DDTHH:mm:ssZ\<close> and \<^verbatim>\<open>YYYY-MM-DDTHH:mm:ss+HH:mm\<close> (or \<open>-\<close>), both of the
  ECMAScript date-time string format. \<open>parse_date_time\<close> reads a string of one of these
  shapes whose fields name a time of a day of the calendar; on every other string the
  result is the implementation's own, taken as the parameter \<open>parseOther\<close>
  (ECMAScript leaves the reading of a string outside its format to the implementation,
  and engines differ on fields out of range).
\<close>

definition digit_value :: "char \<Rightarrow> int option" where
  "digit_value c =
     (if CHR ''0'' \<le> c \<and> c \<le> CHR ''9'' then Some (int (of_char c) - 48) else None)"

fun digits_value :: "int \<Rightarrow> string \<Rightarrow> int option" where
  "digits_value acc [] = Some acc"
| "digits_value acc (c # cs) =
     (case digit_value c of None \<Rightarrow> None | Some v \<Rightarrow> digits_value (10 * acc + v) cs)"

definition number_field :: "nat \<Rightarrow> nat \<Rightarrow> string \<Rightarrow> int option" where
  "number_field start len s = digits_value 0 (take len (drop start s))"

definition days_in_month :: "int \<Rightarrow> int \<Rightarrow> int" where
  "days_in_month y m = days_from_civil (y + m div 12) (m mod 12 + 1) 1 - days_from_civil y m 1"

definition parse_date_time :: "string \<Rightarrow> int option" where
  "parse_date_time s =
     (if (length s = 20 \<and> s ! 19 = CHR ''Z''
          \<or> length s = 25 \<and> (s ! 19 = CHR ''+'' \<or> s ! 19 = CHR ''-'') \<and> s ! 22 = CHR '':'')
         \<and> s ! 4 = CHR ''-'' \<and> s ! 7 = CHR ''-'' \<and> s ! 10 = CHR ''T''
         \<and> s ! 13 = CHR '':'' \<and> s ! 16 = CHR '':''
      then do {
        y \<leftarrow> number_field 0 4 s;
        mo \<leftarrow> number_field 5 2 s;
        d \<leftarrow> number_field 8 2 s;
        h \<leftarrow> number_field 11 2 s;
        mi \<leftarrow> number_field 14 2 s;
        sec \<leftarrow> number_field 17 2 s;
        oh \<leftarrow> (if length s = 20 then Some 0 else number_field 20 2 s);
        om \<leftarrow> (if length s = 20 then Some 0 else number_field 23 2 s);
        if 1 \<le> mo \<and> mo \<le> 12 \<and> 1 \<le> d \<and> d \<le> days_in_month y mo
           \<and> h \<le> 23 \<and> mi \<le> 59 \<and> sec \<le> 59 \<and> oh \<le> 23 \<and> om \<le> 59
        then Some (MakeDate (days_from_civil y mo d) (h * 3600000 + mi * 60000 + sec * 1000)
                   - (if s ! 19 = CHR ''-'' then - 1 else 1) * (oh * 60 + om) * 60000)
        else None
      }
      else None)"

definition new_Date_string :: "(string \<Rightarrow> Date) \<Rightarrow> string \<Rightarrow> Date" where
  "new_Date_string parseOther s =
     (case parse_date_time s of Some t \<Rightarrow> TimeClip t | None \<Rightarrow> parseOther s)"

text \<open>
  \<^verbatim>\<open>date.toISOString()\<close> on a valid Date: \<^verbatim>\<open>YYYY-MM-DDTHH:mm:ss.sssZ\<close>, the year
  with a sign and six digits outside 0 to 9999.
\<close>

definition pad_int :: "nat \<Rightarrow> int \<Rightarrow> string" where
  "pad_int w n = padStart w ''0'' (decimal (nat n))"

definition toISOString :: "int \<Rightarrow> string" where
  "toISOString t =
     (let y = YearFromTime t
      in (if 0 \<le> y \<and> y \<le> 9999 then pad_int 4 y
          else (if y < 0 then ''-'' else ''+'') @ pad_int 6 \<bar>y\<bar>)
         @ ''-'' @ pad_int 2 (MonthFromTime t + 1) @ ''-'' @ pad_int 2 (DateFromTime t)
         @ ''T'' @ pad_int 2 (t div 3600000 mod 24) @ '':'' @ pad_int 2 (t div 60000 mod 60)
         @ '':'' @ pad_int 2 (t div 1000 mod 60) @ ''.'' @ pad_int 3 (t mod 1000) @ ''Z'')"

section \<open>The platform and the luxon library\<close>

text \<open>JSON values: the payload objects the handler builds and serialises.\<close>

datatype json =
    JNull
  | JBool bool
  | JNumber number
  | JString string
  | JObject "(string \<times> json) list"

text \<open>
  A luxon \<^verbatim>\<open>DateTime\<close>: an instant (\<open>ts\<close>, milliseconds since the epoch) viewed in a
  zone.
\<close>

record DateTime =
  ts :: int
  zone :: string

text \<open>
  What the code takes from its host and from luxon, neither of which is in the
  repository. A function of \<^verbatim>\<open>Intl\<close> returns \<open>None\<close> when it throws (the constructor
  of \<^verbatim>\<open>Intl.DateTimeFormat\<close> throws a RangeError on a zone it does not know). A luxon
  accessor does not throw; \<open>toISO\<close> and \<open>offsetNameShort\<close> return \<open>None\<close> for
  \<^verbatim>\<open>null\<close>.
  \<^item> \<open>supportedValuesOf_timeZone\<close>: \<^verbatim>\<open>Intl.supportedValuesOf('timeZone')\<close>.
  \<^item> \<open>formatToParts_dateTime date timezone\<close>: the \<open>(type, value)\<close> parts of
    \<^verbatim>\<open>new Intl.DateTimeFormat('en-US', {timeZone, hour12: false, year: 'numeric',
    month: '2-digit', day: '2-digit', hour: '2-digit', minute: '2-digit',
    second: '2-digit'}).formatToParts(date)\<close>.
  \<^item> \<open>formatToParts_timeZoneName date timezone\<close>: the parts of
    \<^verbatim>\<open>new Intl.DateTimeFormat('en-US', {timeZone, timeZoneName: 'short'}).formatToParts(date)\<close>.
  \<^item> \<open>format_weekday date timezone\<close>:
    \<^verbatim>\<open>new Intl.DateTimeFormat('en-US', {timeZone, weekday: 'long'}).format(date)\<close>.
  \<^item> \<open>Date_parse_other\<close>: \<^verbatim>\<open>new Date(string)\<close> on a string that \<open>parse_date_time\<close>
    does not read.
  \<^item> \<open>Number_toString_other\<close>: \<^verbatim>\<open>String(x)\<close> on a number that is not an integer below
    \<open>10^21\<close>.
  \<^item> \<open>toHuman m\<close>: \<^verbatim>\<open>Duration.fromObject({ milliseconds: m }).toHuman()\<close>.
  \<^item> the other fields: the luxon accessors of the same names on a \<^verbatim>\<open>DateTime\<close>.
\<close>

record platform =
  supportedValuesOf_timeZone :: "string list"
  formatToParts_dateTime :: "int \<Rightarrow> string \<Rightarrow> (string \<times> string) list option"
  formatToParts_timeZoneName :: "int \<Rightarrow> string \<Rightarrow> (string \<times> string) list option"
  format_weekday :: "int \<Rightarrow> string \<Rightarrow> string option"
  Date_parse_other :: "string \<Rightarrow> Date"
  Number_toString_other :: "rat \<Rightarrow> string"
  toISO :: "DateTime \<Rightarrow> string option"
  offsetNameShort :: "DateTime \<Rightarrow> string option"
  offset :: "DateTime \<Rightarrow> number"
  toFormat :: "DateTime \<Rightarrow> string \<Rightarrow> string"
  weekNumber :: "DateTime \<Rightarrow> number"
  weekYear :: "DateTime \<Rightarrow> number"
  daysInMonth :: "DateTime \<Rightarrow> number"
  daysInYear :: "DateTime \<Rightarrow> number"
  isInLeapYear :: "DateTime \<Rightarrow> bool"
  startOf :: "DateTime \<Rightarrow> string \<Rightarrow> DateTime"
  endOf :: "DateTime \<Rightarrow> string \<Rightarrow> DateTime"
  toHuman :: "number \<Rightarrow> string"

text \<open>
  Modelled from the spec: luxon's \<^verbatim>\<open>DateTime.utc()\<close>, \<^verbatim>\<open>setZone\<close>,
  \<^verbatim>\<open>DateTime.fromJSDate\<close>, \<^verbatim>\<open>diff\<close> and \<^verbatim>\<open>toMillis\<close> are not under src/. By the
  spec's data model the local time and the UTC time of one request describe the same
  instant: changing the zone keeps the instant, and the difference of two DateTimes is
  the difference of their instants in milliseconds.
\<close>

definition DateTime_utc :: "int \<Rightarrow> DateTime" where
  "DateTime_utc now = \<lparr>ts = now, zone = ''UTC''\<rparr>"

definition setZone :: "DateTime \<Rightarrow> string \<Rightarrow> DateTime" where
  "setZone dt timezone = dt\<lparr>zone := timezone\<rparr>"

definition fromJSDate :: "int \<Rightarrow> string \<Rightarrow> DateTime" where
  "fromJSDate date timezone = \<lparr>ts = date, zone = timezone\<rparr>"

definition toMillis :: "DateTime \<Rightarrow> number" where
  "toMillis dt = Num (of_int (ts dt))"

definition diff_toMillis :: "DateTime \<Rightarrow> DateTime \<Rightarrow> number" where
  "diff_toMillis a b = Num (of_int (ts a - ts b))"

text \<open>A template literal prints a missing property as \<^verbatim>\<open>undefined\<close>.\<close>

definition template_value :: "string option \<Rightarrow> string" where
  "template_value v = (case v of None \<Rightarrow> ''undefined'' | Some s \<Rightarrow> s)"

definition json_of_nullable :: "string option \<Rightarrow> json" where
  "json_of_nullable v = (case v of None \<Rightarrow> JNull | Some s \<Rightarrow> JString s)"

section \<open>The calendar functions of unnamed/part_000\<close>

text \<open>
  Each function takes the time value \<open>date\<close> of a valid Date (the handler passes
  \<^verbatim>\<open>new Date()\<close>) and returns \<open>None\<close> when a call of \<^verbatim>\<open>Intl\<close> throws.
\<close>

definition getTimezoneOffsetInMinutes :: "platform \<Rightarrow> int \<Rightarrow> string \<Rightarrow> number option" where
  "getTimezoneOffsetInMinutes pf date timezone =
     do {
       parts \<leftarrow> formatToParts_dateTime pf date timezone;
       let values = fold (\<lambda>part values. values(fst part \<mapsto> snd part)) parts Map.empty;
       let tzDate = new_Date_string (Date_parse_other pf)
             (template_value (values ''year'') @ ''-'' @ template_value (values ''month'')
              @ ''-'' @ template_value (values ''day'') @ ''T'' @ template_value (values ''hour'')
              @ '':'' @ template_value (values ''minute'') @ '':''
              @ template_value (values ''second'') @ ''Z'');
       let offsetInMinutes = Math_round (num_div (getTime tzDate - Num (of_int date)) 60000);
       Some offsetInMinutes
     }"

definition calculateUTCOffset :: "platform \<Rightarrow> int \<Rightarrow> string \<Rightarrow> string option" where
  "calculateUTCOffset pf date timezone =
     do {
       offsetInMinutes \<leftarrow> getTimezoneOffsetInMinutes pf date timezone;
       let sign = (if num_ge0 offsetInMinutes then ''+'' else ''-'');
       let absOffset = Math_abs offsetInMinutes;
       let hours = padStart 2 ''0''
             (String_number (Number_toString_other pf) (Math_floor (num_div absOffset 60)));
       let minutes = padStart 2 ''0''
             (String_number (Number_toString_other pf) (num_rem absOffset 60));
       Some (''UTC'' @ sign @ hours @ '':'' @ minutes)
     }"

definition getTimezoneAbbreviation :: "platform \<Rightarrow> int \<Rightarrow> string \<Rightarrow> string option" where
  "getTimezoneAbbreviation pf date timezone =
     do {
       parts \<leftarrow> formatToParts_timeZoneName pf date timezone;
       let timeZoneName = find (\<lambda>part. fst part = ''timeZoneName'') parts;
       Some (case timeZoneName of Some part \<Rightarrow> snd part | None \<Rightarrow> [])
     }"

definition getLocalISOString :: "platform \<Rightarrow> int \<Rightarrow> string \<Rightarrow> string option" where
  "getLocalISOString pf date timezone =
     do {
       offsetInMinutes \<leftarrow> getTimezoneOffsetInMinutes pf date timezone;
       let str = String_number (Number_toString_other pf);
       let sign = (if num_ge0 offsetInMinutes then ''+'' else ''-'');
       let absOffset = Math_abs offsetInMinutes;
       let hours = padStart 2 ''0'' (str (Math_floor (num_div absOffset 60)));
       let minutes = padStart 2 ''0'' (str (num_rem absOffset 60));
       let localTimestamp = Num (of_int date) + offsetInMinutes * Num 60000;
       let localDate = new_Date localTimestamp;
       let year = getUTCFullYear localDate;
       let month = padStart 2 ''0'' (str (getUTCMonth localDate + Num 1));
       let day = padStart 2 ''0'' (str (getUTCDate localDate));
       let hour = padStart 2 ''0'' (str (getUTCHours localDate));
       let minuteStr = padStart 2 ''0'' (str (getUTCMinutes localDate));
       let second = padStart 2 ''0'' (str (getUTCSeconds localDate));
       Some (str year @ ''-'' @ month @ ''-'' @ day @ ''T'' @ hour @ '':'' @ minuteStr @ '':''
             @ second @ sign @ hours @ '':'' @ minutes)
     }"

definition getDayOfWeek :: "platform \<Rightarrow> int \<Rightarrow> string \<Rightarrow> string option" where
  "getDayOfWeek pf date timezone = format_weekday pf date timezone"

definition getISOWeekNumber :: "platform \<Rightarrow> int \<Rightarrow> string \<Rightarrow> number option" where
  "getISOWeekNumber pf date timezone =
     do {
       localISOString \<leftarrow> getLocalISOString pf date timezone;
       let localDate = new_Date_string (Date_parse_other pf) localISOString;
       let dayNumber = num_rem (getUTCDay localDate + Num 6) 7;
       let localDate = setUTCDate localDate (getUTCDate localDate + Num 4 - dayNumber);
       let week1 = new_Date (Date_UTC (getUTCFullYear localDate) (Num 0) (Num 4));
       let week1 = setUTCDate week1
             (getUTCDate week1 + Num 3 - num_rem (getUTCDay week1 + Num 6) 7);
       let weekNumber = Num 1 + Math_round (num_div
             (num_div (getTime localDate - getTime week1) 86400000 - Num 3
              + num_rem (getUTCDay week1 + Num 6) 7) 7);
       Some weekNumber
     }"

section \<open>The calendar functions of unnamed/part_001\<close>

definition getLocalISOString_luxon :: "platform \<Rightarrow> int \<Rightarrow> string \<Rightarrow> string option" where
  "getLocalISOString_luxon pf date timezone = toISO pf (fromJSDate date timezone)"

definition calculateUTCOffset_luxon :: "platform \<Rightarrow> int \<Rightarrow> string \<Rightarrow> string" where
  "calculateUTCOffset_luxon pf date timezone =
     (let offset = offset pf (fromJSDate date timezone);
          sign = (if num_ge0 offset then ''+'' else ''-'');
          absOffset = Math_abs offset;
          hours = padStart 2 ''0''
            (String_number (Number_toString_other pf) (Math_floor (num_div absOffset 60)));
          minutes = padStart 2 ''0''
            (String_number (Number_toString_other pf) (num_rem absOffset 60))
      in ''UTC'' @ sign @ hours @ '':'' @ minutes)"

definition getTimezoneAbbreviation_luxon :: "platform \<Rightarrow> int \<Rightarrow> string \<Rightarrow> string" where
  "getTimezoneAbbreviation_luxon pf date timezone =
     toFormat pf (fromJSDate date timezone) ''ZZZ''"

definition getDayOfWeek_luxon :: "platform \<Rightarrow> int \<Rightarrow> string \<Rightarrow> string" where
  "getDayOfWeek_luxon pf date timezone = toFormat pf (fromJSDate date timezone) ''EEEE''"

definition getISOWeekNumber_luxon :: "platform \<Rightarrow> int \<Rightarrow> string \<Rightarrow> number" where
  "getISOWeekNumber_luxon pf date timezone = weekNumber pf (fromJSDate date timezone)"

section \<open>The cache key\<close>

text \<open>
  \<open>params\<close> is \<^verbatim>\<open>new URL(url).searchParams\<close>: the name/value pairs of the query
  string in their order. \<^verbatim>\<open>params.keys()\<close> yields the name of every pair, a repeated
  name as often as it occurs; \<^verbatim>\<open>params.get(key)\<close> is the value of the first pair with
  that name, or \<^verbatim>\<open>null\<close>. The default \<^verbatim>\<open>sort()\<close> orders strings by their code
  units, a proper prefix before its extensions.
\<close>

definition searchParams_get :: "(string \<times> string) list \<Rightarrow> string \<Rightarrow> string option" where
  "searchParams_get params key = map_of params key"

definition generateCacheKey :: "(string \<times> string) list \<Rightarrow> string" where
  "generateCacheKey params =
     (let sortedKeys = sort (map fst params)
      in join ''&''
           (map (\<lambda>key. key @ ''=''
                   @ (case searchParams_get params key of None \<Rightarrow> ''null'' | Some v \<Rightarrow> v))
              sortedKeys))"

section \<open>The structural pattern for a timezone identifier\<close>

text \<open>
  Regular expressions with a matcher by derivatives, enough for the pattern
  \<^verbatim>\<open>/^[A-Za-z_]+\/[A-Za-z_]+(?:\/[A-Za-z_]+)*$/\<close> of unnamed/part_000 and
  unnamed/part_001. The pattern has no flags and is anchored at both ends, so
  \<^verbatim>\<open>timezonePattern.test(timezone)\<close> holds when the whole string matches.
\<close>

datatype regex =
    Zero
  | One
  | Atom "char \<Rightarrow> bool"
  | Alt regex regex
  | Seq regex regex
  | Star regex

definition Plus :: "regex \<Rightarrow> regex" where
  "Plus r = Seq r (Star r)"

definition Lit :: "char \<Rightarrow> regex" where
  "Lit c = Atom (\<lambda>x. x = c)"

primrec nullable :: "regex \<Rightarrow> bool" where
  "nullable Zero = False"
| "nullable One = True"
| "nullable (Atom p) = False"
| "nullable (Alt r s) = (nullable r \<or> nullable s)"
| "nullable (Seq r s) = (nullable r \<and> nullable s)"
| "nullable (Star r) = True"

primrec deriv :: "char \<Rightarrow> regex \<Rightarrow> regex" where
  "deriv c Zero = Zero"
| "deriv c One = Zero"
| "deriv c (Atom p) = (if p c then One else Zero)"
| "deriv c (Alt r s) = Alt (deriv c r) (deriv c s)"
| "deriv c (Seq r s) =
     (if nullable r then Alt (Seq (deriv c r) s) (deriv c s) else Seq (deriv c r) s)"
| "deriv c (Star r) = Seq (deriv c r) (Star r)"

primrec matches :: "regex \<Rightarrow> string \<Rightarrow> bool" where
  "matches r [] = nullable r"
| "matches r (c # cs) = matches (deriv c r) cs"

text \<open>The character class \<^verbatim>\<open>[A-Za-z_]\<close>.\<close>

definition letter_or_underscore :: "char \<Rightarrow> bool" where
  "letter_or_underscore c =
     (CHR ''A'' \<le> c \<and> c \<le> CHR ''Z'' \<or> CHR ''a'' \<le> c \<and> c \<le> CHR ''z'' \<or> c = CHR ''_'')"

definition timezonePattern :: regex where
  "timezonePattern =
     Seq (Plus (Atom letter_or_underscore))
       (Seq (Lit CHR ''/'')
          (Seq (Plus (Atom letter_or_underscore))
             (Star (Seq (Lit CHR ''/'') (Plus (Atom letter_or_underscore))))))"

definition timezonePattern_test :: "string \<Rightarrow> bool" where
  "timezonePattern_test timezone = matches timezonePattern timezone"

section \<open>The request handler\<close>

datatype variant = Api_js | Part_000 | Part_001

text \<open>functions/api.js has no structural pre-filter; the other two files have it.\<close>

definition has_timezonePattern :: "variant \<Rightarrow> bool" where
  "has_timezonePattern v = (v \<noteq> Api_js)"

definition RATE_LIMIT_WINDOW_MS :: int where
  "RATE_LIMIT_WINDOW_MS = 60 * 1000"

definition RATE_LIMIT_MAX_REQUESTS :: int where
  "RATE_LIMIT_MAX_REQUESTS = 100"

text \<open>
  The module state. \<^verbatim>\<open>rateLimitMap\<close> holds references to \<^verbatim>\<open>{ count, last }\<close>
  objects, and the handler updates such an object in place before it decides whether to
  store it: \<open>rateLimitMap\<close> maps a client to a reference and \<open>heap\<close> maps a reference
  to the object; \<open>next_ref\<close> is the first unused reference. A cache entry is never
  changed after it is stored, so \<open>responseCache\<close> holds entries by value.
\<close>

type_synonym ref = nat

record rateData =
  count_rd :: int
  last_rd :: int

record cacheEntry =
  response :: json
  timestamp :: int

record state =
  responseCache :: "string \<Rightarrow> cacheEntry option"
  rateLimitMap :: "string \<Rightarrow> ref option"
  heap :: "ref \<Rightarrow> rateData"
  next_ref :: ref

text \<open>
  What the handler reads of a request: \<^verbatim>\<open>request.method\<close> (the field \<open>method_name\<close>),
  \<^verbatim>\<open>new URL(request.url).searchParams\<close> and
  \<^verbatim>\<open>request.headers.get('CF-Connecting-IP')\<close> (\<open>None\<close> for \<^verbatim>\<open>null\<close>).
\<close>

record Request =
  method_name :: string
  searchParams :: "(string \<times> string) list"
  CF_Connecting_IP :: "string option"

text \<open>
  The body of a response is \<^verbatim>\<open>null\<close>, or \<^verbatim>\<open>JSON.stringify(value)\<close>, or
  \<^verbatim>\<open>JSON.stringify(value, null, 2)\<close>. The serialiser is the platform's and a function of
  its arguments, so a body is recorded as the arguments of the call: equal bodies are
  equal byte for byte.
\<close>

datatype body = Null_body | JSON_stringify json | JSON_stringify_indent json nat

record Response =
  status :: nat
  headers :: "(string \<times> string) list"
  body :: body

definition corsHeaders :: "(string \<times> string) list" where
  "corsHeaders =
     [(''Access-Control-Allow-Origin'', ''*''),
      (''Access-Control-Allow-Methods'', ''GET, OPTIONS''),
      (''Access-Control-Allow-Headers'', ''Content-Type'')]"

text \<open>The \<^verbatim>\<open>return\<close> statements of \<^verbatim>\<open>onRequest\<close>, in the order of the source.\<close>

datatype exit =
    Preflight
  | Cache_hit json
  | Rate_limited
  | Missing_timezone
  | Invalid_format
  | Invalid_timezone string
  | Success json
  | Internal_error

definition error_response :: "nat \<Rightarrow> string \<Rightarrow> Response" where
  "error_response code message =
     \<lparr>status = code,
      headers = (''Content-Type'', ''application/json'') # corsHeaders,
      body = JSON_stringify (JObject [(''error'', JString message)])\<rparr>"

definition ok_response :: "json \<Rightarrow> Response" where
  "ok_response payload =
     \<lparr>status = 200,
      headers = [(''Content-Type'', ''application/json''), (''Cache-Control'', ''public, max-age=1'')]
                @ corsHeaders,
      body = JSON_stringify_indent payload 2\<rparr>"

fun respond :: "exit \<Rightarrow> Response" where
  "respond Preflight = \<lparr>status = 204, headers = corsHeaders, body = Null_body\<rparr>"
| "respond (Cache_hit payload) = ok_response payload"
| "respond Rate_limited = error_response 429 ''Rate limit exceeded. Please try again later.''"
| "respond Missing_timezone = error_response 400 ''Missing 'timezone' query parameter.''"
| "respond Invalid_format =
     error_response 400
       ''Invalid timezone format. Please provide a valid IANA timezone identifier.''"
| "respond (Invalid_timezone timezone) =
     error_response 400
       (''Invalid timezone '' @ [CHR 0x27] @ timezone @ [CHR 0x27]
        @ ''. Please provide a valid IANA timezone identifier.'')"
| "respond (Success payload) = ok_response payload"
| "respond Internal_error =
     error_response 500 ''Internal Server Error. Please try again later.''"

subsection \<open>The payload objects\<close>

text \<open>
  The \<^verbatim>\<open>try\<close> block of each file builds the payload from the instant \<open>utcDate\<close>
  (\<^verbatim>\<open>new Date()\<close>, or \<^verbatim>\<open>DateTime.utc()\<close> in functions/api.js), read from the clock
  after the rate limiter has run. \<open>None\<close> stands for an exception, which the
  \<^verbatim>\<open>catch\<close> block logs and turns into the 500 response (the log line is not part of
  the model).
\<close>

definition timeReport_part_000 :: "platform \<Rightarrow> int \<Rightarrow> string \<Rightarrow> json option" where
  "timeReport_part_000 pf utcDate timezone =
     do {
       localISOString \<leftarrow> getLocalISOString pf utcDate timezone;
       offset \<leftarrow> calculateUTCOffset pf utcDate timezone;
       offsetInMinutes \<leftarrow> getTimezoneOffsetInMinutes pf utcDate timezone;
       let offsetMilliseconds = offsetInMinutes * Num 60000;
       tzAbbreviation \<leftarrow> getTimezoneAbbreviation pf utcDate timezone;
       dayOfWeek \<leftarrow> getDayOfWeek pf utcDate timezone;
       isoWeekNumber \<leftarrow> getISOWeekNumber pf utcDate timezone;
       Some (JObject
         [(''local_time'', JString localISOString),
          (''utc_time'', JString (toISOString utcDate)),
          (''timezone'', JString timezone),
          (''offset'', JString offset),
          (''offset_milliseconds'', JNumber offsetMilliseconds),
          (''timezone_abbreviation'', JString tzAbbreviation),
          (''day_of_week'', JString dayOfWeek),
          (''iso_week_number'', JNumber isoWeekNumber),
          (''timestamp_milliseconds'', JNumber (Num (of_int utcDate)))])
     }"

definition timeReport_part_001 :: "platform \<Rightarrow> int \<Rightarrow> string \<Rightarrow> json option" where
  "timeReport_part_001 pf utcDate timezone =
     (let localISOString = getLocalISOString_luxon pf utcDate timezone;
          offset = calculateUTCOffset_luxon pf utcDate timezone;
          tzAbbreviation = getTimezoneAbbreviation_luxon pf utcDate timezone;
          dayOfWeek = getDayOfWeek_luxon pf utcDate timezone;
          isoWeekNumber = getISOWeekNumber_luxon pf utcDate timezone
      in Some (JObject
         [(''local_time'', json_of_nullable localISOString),
          (''utc_time'', JString (toISOString utcDate)),
          (''timezone'', JString timezone),
          (''offset'', JString offset),
          (''timezone_abbreviation'', JString tzAbbreviation),
          (''day_of_week'', JString dayOfWeek),
          (''iso_week_number'', JNumber isoWeekNumber),
          (''timestamp_milliseconds'', JNumber (Num (of_int utcDate)))]))"

definition timeReport_api_js :: "platform \<Rightarrow> int \<Rightarrow> string \<Rightarrow> json option" where
  "timeReport_api_js pf now timezone =
     (let utcNow = DateTime_utc now;
          localNow = setZone utcNow timezone
      in Some (JObject
         [(''local_time'', json_of_nullable (toISO pf localNow)),
          (''utc_time'', json_of_nullable (toISO pf utcNow)),
          (''timezone'', JString timezone),
          (''offset'', json_of_nullable (offsetNameShort pf localNow)),
          (''offset_minutes'', JNumber (offset pf localNow)),
          (''timezone_abbreviation'', JString (toFormat pf localNow ''ZZZ'')),
          (''day_of_week'', JString (toFormat pf localNow ''EEEE'')),
          (''ordinal_date'', JString (toFormat pf localNow ''o'')),
          (''iso_week'', JNumber (weekNumber pf localNow)),
          (''iso_year'', JNumber (weekYear pf localNow)),
          (''days_in_month'', JNumber (daysInMonth pf localNow)),
          (''days_in_year'', JNumber (daysInYear pf localNow)),
          (''is_leap_year'', JBool (isInLeapYear pf localNow)),
          (''start_of_day'', json_of_nullable (toISO pf (startOf pf localNow ''day''))),
          (''end_of_day'', json_of_nullable (toISO pf (endOf pf localNow ''day''))),
          (''duration_since_utc'', JString (toHuman pf (diff_toMillis localNow utcNow))),
          (''timestamp_milliseconds'', JNumber (toMillis localNow))]))"

fun timeReport :: "variant \<Rightarrow> platform \<Rightarrow> int \<Rightarrow> string \<Rightarrow> json option" where
  "timeReport Api_js = timeReport_api_js"
| "timeReport Part_000 = timeReport_part_000"
| "timeReport Part_001 = timeReport_part_001"

subsection \<open>The stages of onRequest\<close>

text \<open>
  The cache lookup: \<^verbatim>\<open>responseCache.has(cacheKey)\<close> and
  \<^verbatim>\<open>currentTime - timestamp <= 1000\<close>. The result is the payload to return, or
  \<open>None\<close> when the handler goes on.
\<close>

definition cache_lookup :: "state \<Rightarrow> string \<Rightarrow> int \<Rightarrow> json option" where
  "cache_lookup st cacheKey currentTime =
     (case responseCache st cacheKey of
        Some entry \<Rightarrow>
          (if currentTime - timestamp entry \<le> 1000 then Some (response entry) else None)
      | None \<Rightarrow> None)"

text \<open>
  \<^verbatim>\<open>request.headers.get('CF-Connecting-IP') || 'unknown'\<close>: \<^verbatim>\<open>null\<close> and the empty
  string are falsy.
\<close>

definition client_ip :: "Request \<Rightarrow> string" where
  "client_ip request =
     (case CF_Connecting_IP request of
        None \<Rightarrow> ''unknown''
      | Some ip \<Rightarrow> (if ip = [] then ''unknown'' else ip))"

text \<open>
  \<^verbatim>\<open>rateLimitMap.get(ip) || { count: 0, last: currentTime }\<close>: the reference the map
  holds for the client, or the reference of a new object.
\<close>

definition rateData_ref :: "state \<Rightarrow> string \<Rightarrow> int \<Rightarrow> ref \<times> state" where
  "rateData_ref st ip currentTime =
     (case rateLimitMap st ip of
        Some r \<Rightarrow> (r, st)
      | None \<Rightarrow>
          (next_ref st,
           st\<lparr>heap := (heap st)(next_ref st := \<lparr>count_rd = 0, last_rd = currentTime\<rparr>),
              next_ref := Suc (next_ref st)\<rparr>))"

text \<open>
  The rate limiter. The result is \<open>True\<close> when the handler returns the 429 response;
  that \<^verbatim>\<open>return\<close> comes after \<^verbatim>\<open>rateData.count += 1\<close> and before
  \<^verbatim>\<open>rateLimitMap.set(ip, rateData)\<close>.
\<close>

definition rate_limit :: "state \<Rightarrow> string \<Rightarrow> int \<Rightarrow> bool \<times> state" where
  "rate_limit st ip currentTime =
     (let (rateData, st1) = rateData_ref st ip currentTime
      in if currentTime - last_rd (heap st1 rateData) < RATE_LIMIT_WINDOW_MS
         then
           let st2 = st1\<lparr>heap := (heap st1)
                     (rateData := (heap st1 rateData)
                        \<lparr>count_rd := count_rd (heap st1 rateData) + 1\<rparr>)\<rparr>
           in if count_rd (heap st2 rateData) > RATE_LIMIT_MAX_REQUESTS
              then (True, st2)
              else (False, st2\<lparr>rateLimitMap := (rateLimitMap st2)(ip \<mapsto> rateData)\<rparr>)
         else
           let st2 = st1\<lparr>heap := (heap st1)
                     (rateData := (heap st1 rateData)
                        \<lparr>count_rd := 1, last_rd := currentTime\<rparr>)\<rparr>
           in (False, st2\<lparr>rateLimitMap := (rateLimitMap st2)(ip \<mapsto> rateData)\<rparr>))"

text \<open>
  The parameter checks and the \<^verbatim>\<open>try\<close> block. \<^verbatim>\<open>!timezone\<close> holds for
  \<^verbatim>\<open>null\<close> (no such parameter) and for the empty string.
\<close>

definition validate_and_compute ::
  "variant \<Rightarrow> platform \<Rightarrow> state \<Rightarrow> Request \<Rightarrow> string \<Rightarrow> int \<Rightarrow> int \<Rightarrow> exit \<times> state" where
  "validate_and_compute v pf st request cacheKey currentTime utcDate =
     (case searchParams_get (searchParams request) ''timezone'' of
        None \<Rightarrow> (Missing_timezone, st)
      | Some timezone \<Rightarrow>
          if timezone = [] then (Missing_timezone, st)
          else if has_timezonePattern v \<and> \<not> timezonePattern_test timezone
          then (Invalid_format, st)
          else if timezone \<notin> set (supportedValuesOf_timeZone pf)
          then (Invalid_timezone timezone, st)
          else
            (case timeReport v pf utcDate timezone of
               Some payload \<Rightarrow>
                 (Success payload,
                  st\<lparr>responseCache := (responseCache st)
                      (cacheKey \<mapsto> \<lparr>response = payload, timestamp = currentTime\<rparr>)\<rparr>)
             | None \<Rightarrow> (Internal_error, st)))"

text \<open>
  \<^verbatim>\<open>onRequest\<close>: \<open>currentTime\<close> is \<^verbatim>\<open>Date.now()\<close> and \<open>utcDate\<close> is the clock as
  the \<^verbatim>\<open>try\<close> block reads it. \<open>onRequest_exit\<close> gives the \<^verbatim>\<open>return\<close> statement
  reached and the state after the request; \<open>onRequest\<close> gives the response.
\<close>

definition onRequest_exit ::
  "variant \<Rightarrow> platform \<Rightarrow> state \<Rightarrow> Request \<Rightarrow> int \<Rightarrow> int \<Rightarrow> exit \<times> state" where
  "onRequest_exit v pf st request currentTime utcDate =
     (if method_name request = ''OPTIONS'' then (Preflight, st)
      else
        let cacheKey = generateCacheKey (searchParams request)
        in case cache_lookup st cacheKey currentTime of
             Some payload \<Rightarrow> (Cache_hit payload, st)
           | None \<Rightarrow>
               let ip = client_ip request;
                   (limited, st') = rate_limit st ip currentTime
               in if limited then (Rate_limited, st')
                  else validate_and_compute v pf st' request cacheKey currentTime utcDate)"

definition onRequest ::
  "variant \<Rightarrow> platform \<Rightarrow> state \<Rightarrow> Request \<Rightarrow> int \<Rightarrow> int \<Rightarrow> Response \<times> state" where
  "onRequest v pf st request currentTime utcDate =
     (let (e, st') = onRequest_exit v pf st request currentTime utcDate
      in (respond e, st'))"

text \<open>
  The state of a freshly loaded module, and the handling of a sequence of requests, each
  with its two clock readings.
\<close>

definition initial_state :: state where
  "initial_state =
     \<lparr>responseCache = Map.empty, rateLimitMap = Map.empty,
      heap = (\<lambda>r. \<lparr>count_rd = 0, last_rd = 0\<rparr>), next_ref = 0\<rparr>"

fun serve ::
  "variant \<Rightarrow> platform \<Rightarrow> state \<Rightarrow> (Request \<times> int \<times> int) list \<Rightarrow> exit list \<times> state" where
  "serve v pf st [] = ([], st)"
| "serve v pf st ((request, currentTime, utcDate) # rest) =
     (let (e, st') = onRequest_exit v pf st request currentTime utcDate;
          (es, st'') = serve v pf st' rest
      in (e # es, st''))"

text \<open>
  What the map shows for a client: the object its entry refers to. \<open>window_of\<close> is the
  object the rate limiter works on, the client's or a new one.
\<close>

definition client_rateData :: "state \<Rightarrow> string \<Rightarrow> rateData option" where
  "client_rateData st ip = map_option (heap st) (rateLimitMap st ip)"

definition window_of :: "state \<Rightarrow> string \<Rightarrow> int \<Rightarrow> rateData" where
  "window_of st ip currentTime =
     (case client_rateData st ip of
        Some rd \<Rightarrow> rd
      | None \<Rightarrow> \<lparr>count_rd = 0, last_rd = currentTime\<rparr>)"

text \<open>
  The keys of a payload object, and the payloads a \<^verbatim>\<open>try\<close> block of the variant can build.
\<close>

definition json_keys :: "json \<Rightarrow> string list" where
  "json_keys j = (case j of JObject members \<Rightarrow> map fst members | _ \<Rightarrow> [])"

definition computed_payload :: "variant \<Rightarrow> platform \<Rightarrow> json \<Rightarrow> bool" where
  "computed_payload v pf payload = (\<exists>utcDate timezone. timeReport v pf utcDate timezone = Some payload)"

text \<open>The value of a field of a payload object.\<close>

definition json_field :: "json \<Rightarrow> string \<Rightarrow> json option" where
  "json_field j name = (case j of JObject members \<Rightarrow> map_of members name | _ \<Rightarrow> None)"

section \<open>The language of a regular expression\<close>

text \<open>
  The set of strings a regular expression denotes, for proving what the matcher accepts.
\<close>

definition conc :: "string set \<Rightarrow> string set \<Rightarrow> string set" where
  "conc A B = {u @ v | u v. u \<in> A \<and> v \<in> B}"

inductive_set star :: "string set \<Rightarrow> string set" for A :: "string set" where
  star_empty: "[] \<in> star A"
| star_step: "u \<in> A \<Longrightarrow> v \<in> star A \<Longrightarrow> u @ v \<in> star A"

primrec lang :: "regex \<Rightarrow> string set" where
  "lang Zero = {}"
| "lang One = {[]}"
| "lang (Atom p) = {[c] | c. p c}"
| "lang (Alt r s) = lang r \<union> lang s"
| "lang (Seq r s) = conc (lang r) (lang s)"
| "lang (Star r) = star (lang r)"

definition word_segments :: "string set" where
  "word_segments = {w. w \<noteq> [] \<and> (\<forall>c \<in> set w. letter_or_underscore c)}"

section \<open>Definitions that follow the specification\<close>

text \<open>
  The display string of a UTC offset as the specification words it: \<open>UTC\<close>, the sign
  (\<open>+\<close> when the offset is at least 0), the hours \<open>floor(|offset| / 60)\<close> and the minutes
  \<open>|offset| mod 60\<close>, each zero-padded to two digits.
\<close>

definition zero_padded_two :: "nat \<Rightarrow> string" where
  "zero_padded_two k = (if k < 10 then CHR ''0'' # decimal k else decimal k)"

definition utc_offset_display :: "int \<Rightarrow> string" where
  "utc_offset_display n =
     ''UTC'' @ (if 0 \<le> n then ''+'' else ''-'')
     @ zero_padded_two (nat (\<bar>n\<bar> div 60)) @ '':'' @ zero_padded_two (nat (\<bar>n\<bar> mod 60))"

text \<open>
  The cache key as the specification words it: the parameter names in sorted order, each
  joined to its value as \<open>name=value\<close>, the pairs joined with \<open>&\<close>. The value of a
  name is the value of its first occurrence in the query.
\<close>

definition canonical_key :: "string list \<Rightarrow> (string \<Rightarrow> string) \<Rightarrow> string" where
  "canonical_key names value_of = join ''&'' (map (\<lambda>name. name @ ''='' @ value_of name) names)"

definition first_value :: "(string \<times> string) list \<Rightarrow> string \<Rightarrow> string" where
  "first_value params name =
     (case find (\<lambda>pair. fst pair = name) params of Some pair \<Rightarrow> snd pair | None \<Rightarrow> ''null'')"

text \<open>
  The shape of an identifier as the specification words it: segments separated by
  \<open>/\<close>, at least two of them, each a nonempty string of letters and underscores.
\<close>

fun split_slash :: "string \<Rightarrow> string list" where
  "split_slash [] = [[]]"
| "split_slash (c # cs) =
     (if c = CHR ''/'' then [] # split_slash cs
      else (case split_slash cs of [] \<Rightarrow> [[c]] | seg # segs \<Rightarrow> (c # seg) # segs))"

definition region_city_shape :: "string \<Rightarrow> bool" where
  "region_city_shape s =
     (2 \<le> length (split_slash s)
      \<and> (\<forall>seg \<in> set (split_slash s). seg \<noteq> [] \<and> (\<forall>c \<in> set seg. letter_or_underscore c)))"

text \<open>
  The ISO 8601 week number as the specification words it. Weeks run from Monday to
  Sunday, so a day belongs to the week of the Thursday three days after the Monday on or
  before it; the week-year is the year of that Thursday; week 1 is the week that contains
  the year's first Thursday. \<open>iso_weekday\<close> counts from Monday as 0 (day 0, 1970-01-01,
  was a Thursday). \<open>local_day\<close> is the day number of the local wall-clock date of an
  instant in a zone at the given offset.
\<close>

definition iso_weekday :: "int \<Rightarrow> int" where
  "iso_weekday day = (day + 3) mod 7"

definition iso_week_of_day :: "int \<Rightarrow> int" where
  "iso_week_of_day day =
     (let thursday = day - iso_weekday day + 3;
          year = fst (civil_from_days thursday);
          jan1 = days_from_civil year 1 1;
          first_thursday = jan1 + (3 - iso_weekday jan1) mod 7
      in (thursday - first_thursday) div 7 + 1)"

definition local_day :: "int \<Rightarrow> int \<Rightarrow> int" where
  "local_day t offsetInMinutes = (t + offsetInMinutes * 60000) div msPerDay"

section \<open>A platform for the examples\<close>

text \<open>
  A host whose \<^verbatim>\<open>Intl.DateTimeFormat\<close> reports the given wall-clock parts and whose
  luxon reports the given offset, for evaluating the code on concrete requests.
  \<open>parts_of\<close> lists the parts in the order of the \<^verbatim>\<open>en-US\<close> locale.
\<close>

definition fixed_platform :: "(string \<times> string) list \<Rightarrow> number \<Rightarrow> platform" where
  "fixed_platform parts off =
     \<lparr>supportedValuesOf_timeZone = [''Europe/London'', ''Pacific/Auckland'', ''UTC''],
      formatToParts_dateTime = (\<lambda>date timezone. Some parts),
      formatToParts_timeZoneName = (\<lambda>date timezone. Some []),
      format_weekday = (\<lambda>date timezone. Some []),
      Date_parse_other = (\<lambda>s. None),
      Number_toString_other = (\<lambda>a. []),
      toISO = (\<lambda>dt. None),
      offsetNameShort = (\<lambda>dt. None),
      offset = (\<lambda>dt. off),
      toFormat = (\<lambda>dt fmt. []),
      weekNumber = (\<lambda>dt. NaN),
      weekYear = (\<lambda>dt. NaN),
      daysInMonth = (\<lambda>dt. NaN),
      daysInYear = (\<lambda>dt. NaN),
      isInLeapYear = (\<lambda>dt. False),
      startOf = (\<lambda>dt unit. dt),
      endOf = (\<lambda>dt unit. dt),
      toHuman = (\<lambda>m. [])\<rparr>"

definition parts_of ::
  "string \<Rightarrow> string \<Rightarrow> string \<Rightarrow> string \<Rightarrow> string \<Rightarrow> string \<Rightarrow> (string \<times> string) list" where
  "parts_of y mo d h mi s =
     [(''month'', mo), (''literal'', ''/''), (''day'', d), (''literal'', ''/''), (''year'', y),
      (''literal'', '', ''), (''hour'', h), (''literal'', '':''), (''minute'', mi),
      (''literal'', '':''), (''second'', s)]"

text \<open>
  A state whose only client has the given count and window start, and a GET request.
\<close>

definition state_with_client :: "string \<Rightarrow> int \<Rightarrow> int \<Rightarrow> state" where
  "state_with_client ip c l =
     \<lparr>responseCache = Map.empty, rateLimitMap = [ip \<mapsto> 0],
      heap = (\<lambda>r. \<lparr>count_rd = c, last_rd = l\<rparr>), next_ref = 1\<rparr>"

definition get_request :: "(string \<times> string) list \<Rightarrow> string \<Rightarrow> Request" where
  "get_request params ip =
     \<lparr>method_name = ''GET'', searchParams = params, CF_Connecting_IP = Some ip\<rparr>"

text \<open>
  A state that also holds one cache entry, and the payload of unnamed/part_000 for
  2024-12-31T23:00:00.123Z in Pacific/Auckland on \<open>fixed_platform\<close>.
\<close>

definition state_with_entry :: "string \<Rightarrow> json \<Rightarrow> int \<Rightarrow> string \<Rightarrow> int \<Rightarrow> int \<Rightarrow> state" where
  "state_with_entry key payload t ip c l =
     \<lparr>responseCache = [key \<mapsto> \<lparr>response = payload, timestamp = t\<rparr>],
      rateLimitMap = [ip \<mapsto> 0],
      heap = (\<lambda>r. \<lparr>count_rd = c, last_rd = l\<rparr>), next_ref = 1\<rparr>"

definition auckland_report :: json where
  "auckland_report =
     JObject
       [(''local_time'', JString ''2025-01-01T12:00:00+13:00''),
        (''utc_time'', JString ''2024-12-31T23:00:00.123Z''),
        (''timezone'', JString ''Pacific/Auckland''),
        (''offset'', JString ''UTC+13:00''),
        (''offset_milliseconds'', JNumber (Num 46800000)),
        (''timezone_abbreviation'', JString []),
        (''day_of_week'', JString []),
        (''iso_week_number'', JNumber (Num 1)),
        (''timestamp_milliseconds'', JNumber (Num 1735686000123))]"

text \<open>
  A host whose luxon reports an offset of 780 minutes and renders a duration of no
  milliseconds as luxon does, and a request whose \<^verbatim>\<open>timezone\<close> parameter is present and
  empty (\<^verbatim>\<open>?timezone=\<close>).
\<close>

definition luxon_platform :: platform where
  "luxon_platform =
     (fixed_platform [] (Num 780))
       \<lparr>toHuman := (\<lambda>m. if m = Num 0 then ''0 milliseconds'' else [])\<rparr>"

definition empty_timezone_request :: Request where
  "empty_timezone_request = get_request [(''timezone'', [])] ''1.2.3.4''"

text \<open>A request for the given timezone.\<close>

definition timezone_request :: "string \<Rightarrow> Request" where
  "timezone_request timezone = get_request [(''timezone'', timezone)] ''1.2.3.4''"

section \<open>Numbers and strings\<close>

lemma length_decimal_ge1: "1 \<le> length (decimal n)"
  by (induction n rule: decimal.induct) (subst decimal.simps, simp)

lemma length_decimal_lt10: "n < 10 \<Longrightarrow> length (decimal n) = 1"
  by (subst decimal.simps) simp

lemma length_decimal_ge10: "10 \<le> n \<Longrightarrow> 2 \<le> length (decimal n)"
  using length_decimal_ge1 [of "n div 10"] by (subst decimal.simps) simp

lemma padStart_decimal: "padStart 2 ''0'' (decimal k) = zero_padded_two k"
proof (cases "k < 10")
  case True
  then show ?thesis
    by (simp add: padStart_def zero_padded_two_def length_decimal_lt10)
next
  case False
  then have "2 \<le> length (decimal k)" by (simp add: length_decimal_ge10)
  with False show ?thesis by (simp add: padStart_def zero_padded_two_def)
qed

lemma Math_abs_int: "Math_abs (Num (of_int n)) = Num (of_int \<bar>n\<bar>)"
  by (simp add: Math_abs_def)

lemma floor_div_60: "Math_floor (num_div (Num (of_int a)) 60) = Num (of_int (a div 60))"
proof -
  have "\<lfloor>(of_int a :: rat) / of_int 60\<rfloor> = a div 60" by (rule floor_divide_of_int_eq)
  then show ?thesis by (simp add: Math_floor_def num_div_def)
qed

lemma num_rem_nonneg:
  assumes "0 \<le> a" and "0 < c"
  shows "num_rem (Num (of_int a)) c = Num (of_int (a mod c))"
proof -
  have q: "(0::rat) \<le> of_int a / of_int c" using assms by simp
  have f: "\<lfloor>(of_int a :: rat) / of_int c\<rfloor> = a div c" by (rule floor_divide_of_int_eq)
  have "(of_int a :: rat) - of_int c * of_int (a div c) = of_int (a mod c)"
    by (simp add: minus_mult_div_eq_mod flip: of_int_mult of_int_diff)
  with q f assms show ?thesis by (simp add: num_rem_def Let_def)
qed

lemma String_number_nat:
  assumes "0 \<le> k" and "k < 10 ^ 21"
  shows "String_number f (Num (of_int k)) = decimal (nat k)"
proof -
  have "\<bar>(of_int k :: rat)\<bar> < 10 ^ 21"
    using assms by (metis abs_of_nonneg of_int_0_le_iff of_int_less_iff of_int_numeral of_int_power)
  with assms show ?thesis by (simp add: String_number_def)
qed

text \<open>
  The three lines that \<^verbatim>\<open>calculateUTCOffset\<close> (both files) and
  \<^verbatim>\<open>getLocalISOString\<close> share, on an integer offset.
\<close>

lemma offset_display:
  assumes "\<bar>n\<bar> < 2 ^ 53"
  shows "''UTC'' @ (if num_ge0 (Num (of_int n)) then ''+'' else ''-'')
           @ padStart 2 ''0'' (String_number f (Math_floor (num_div (Math_abs (Num (of_int n))) 60)))
           @ '':'' @ padStart 2 ''0'' (String_number f (num_rem (Math_abs (Num (of_int n))) 60))
         = utc_offset_display n"
proof -
  have h: "0 \<le> \<bar>n\<bar> div 60" "\<bar>n\<bar> div 60 < 10 ^ 21" using assms by auto
  have m: "0 \<le> \<bar>n\<bar> mod 60" "\<bar>n\<bar> mod 60 < 10 ^ 21"
    using pos_mod_bound [of 60 "\<bar>n\<bar>"] by auto
  have hrs: "String_number f (Math_floor (num_div (Math_abs (Num (of_int n))) 60))
      = decimal (nat (\<bar>n\<bar> div 60))"
    by (simp only: Math_abs_int floor_div_60 String_number_nat [OF h])
  have "num_rem (Num (of_int \<bar>n\<bar>)) 60 = Num (of_int (\<bar>n\<bar> mod 60))"
    by (rule num_rem_nonneg) simp_all
  then have mins: "String_number f (num_rem (Math_abs (Num (of_int n))) 60)
      = decimal (nat (\<bar>n\<bar> mod 60))"
    by (simp only: Math_abs_int String_number_nat [OF m])
  have sign: "num_ge0 (Num (of_int n)) = (0 \<le> n)" by (simp add: num_ge0_def)
  show ?thesis
    unfolding hrs mins sign padStart_decimal utc_offset_display_def ..
qed

section \<open>The UTC offset display string\<close>

text \<open>
  Claim C6. For every integer offset in minutes (an integer a double holds exactly, below
  \<open>2^53\<close> in magnitude), \<^verbatim>\<open>calculateUTCOffset\<close> returns \<open>UTC\<close>, then \<open>+\<close> when the
  offset is at least 0 and \<open>-\<close> otherwise, then \<open>floor(|offset| / 60)\<close> zero-padded to two
  digits, a colon, and \<open>|offset| mod 60\<close> zero-padded to two digits. This holds for the
  function of unnamed/part_000, whose offset is the result of
  \<^verbatim>\<open>getTimezoneOffsetInMinutes\<close>, and for the function of unnamed/part_001, whose
  offset is luxon's \<^verbatim>\<open>offset\<close>.
\<close>

theorem calculateUTCOffset_display:
  assumes "\<bar>n\<bar> < 2 ^ 53"
  shows "(getTimezoneOffsetInMinutes pf date timezone = Some (Num (of_int n))
            \<longrightarrow> calculateUTCOffset pf date timezone = Some (utc_offset_display n))
         \<and> (offset pf (fromJSDate date timezone) = Num (of_int n)
            \<longrightarrow> calculateUTCOffset_luxon pf date timezone = utc_offset_display n)"
  using offset_display [OF assms]
  by (simp add: calculateUTCOffset_def calculateUTCOffset_luxon_def Let_def)

text \<open>
  The theorem at 2024-12-31T23:00:00.123Z in Pacific/Auckland (offset 780 minutes) for
  unnamed/part_000, and at an offset of -210 minutes for unnamed/part_001.
\<close>

theorem calculateUTCOffset_display_witness:
  "getTimezoneOffsetInMinutes
       (fixed_platform (parts_of ''2025'' ''01'' ''01'' ''12'' ''00'' ''00'') NaN)
       1735686000123 ''Pacific/Auckland'' = Some (Num (of_int 780))
   \<and> calculateUTCOffset
       (fixed_platform (parts_of ''2025'' ''01'' ''01'' ''12'' ''00'' ''00'') NaN)
       1735686000123 ''Pacific/Auckland'' = Some ''UTC+13:00''
   \<and> offset (fixed_platform [] (Num (of_int (- 210))))
       (fromJSDate 1735686000123 ''America/St_Johns'') = Num (of_int (- 210))
   \<and> calculateUTCOffset_luxon (fixed_platform [] (Num (of_int (- 210))))
       1735686000123 ''America/St_Johns'' = ''UTC-03:30''"
proof -
  let ?P = "fixed_platform (parts_of ''2025'' ''01'' ''01'' ''12'' ''00'' ''00'') NaN"
  let ?Q = "fixed_platform [] (Num (of_int (- 210)))"
  have p: "getTimezoneOffsetInMinutes ?P 1735686000123 ''Pacific/Auckland''
      = Some (Num (of_int 780))"
    by code_simp
  have q: "offset ?Q (fromJSDate 1735686000123 ''America/St_Johns'') = Num (of_int (- 210))"
    by (simp add: fixed_platform_def)
  have d1: "utc_offset_display 780 = ''UTC+13:00''" by code_simp
  have d2: "utc_offset_display (- 210) = ''UTC-03:30''" by code_simp
  have b1: "\<bar>780 :: int\<bar> < 2 ^ 53" by simp
  have b2: "\<bar>- 210 :: int\<bar> < 2 ^ 53" by simp
  from calculateUTCOffset_display [OF b1, of ?P 1735686000123 "''Pacific/Auckland''"] p d1
  have r1: "calculateUTCOffset ?P 1735686000123 ''Pacific/Auckland'' = Some ''UTC+13:00''"
    by simp
  from calculateUTCOffset_display [OF b2, of ?Q 1735686000123 "''America/St_Johns''"] q d2
  have r2: "calculateUTCOffset_luxon ?Q 1735686000123 ''America/St_Johns'' = ''UTC-03:30''"
    by simp
  from p r1 q r2 show ?thesis by blast
qed

section \<open>The return statements of onRequest\<close>

lemma status_respond_429: "status (respond e) = 429 \<longleftrightarrow> e = Rate_limited"
  by (cases e) (simp_all add: ok_response_def error_response_def)

lemma status_respond_200:
  "status (respond e) = 200 \<longleftrightarrow> (\<exists>p. e = Cache_hit p \<or> e = Success p)"
  by (cases e) (simp_all add: ok_response_def error_response_def)

lemma onRequest_respond:
  "onRequest v pf st request currentTime utcDate =
     (respond (fst (onRequest_exit v pf st request currentTime utcDate)),
      snd (onRequest_exit v pf st request currentTime utcDate))"
  by (simp add: onRequest_def split: prod.splits)

lemma onRequest_exit_preflight:
  "method_name request = ''OPTIONS'' \<Longrightarrow>
     onRequest_exit v pf st request currentTime utcDate = (Preflight, st)"
  by (simp add: onRequest_exit_def)

lemma onRequest_exit_hit:
  "method_name request \<noteq> ''OPTIONS'' \<Longrightarrow>
   cache_lookup st (generateCacheKey (searchParams request)) currentTime = Some payload \<Longrightarrow>
     onRequest_exit v pf st request currentTime utcDate = (Cache_hit payload, st)"
  by (simp add: onRequest_exit_def)

lemma onRequest_exit_miss:
  "method_name request \<noteq> ''OPTIONS'' \<Longrightarrow>
   cache_lookup st (generateCacheKey (searchParams request)) currentTime = None \<Longrightarrow>
     onRequest_exit v pf st request currentTime utcDate =
       (if fst (rate_limit st (client_ip request) currentTime)
        then (Rate_limited, snd (rate_limit st (client_ip request) currentTime))
        else validate_and_compute v pf (snd (rate_limit st (client_ip request) currentTime))
               request (generateCacheKey (searchParams request)) currentTime utcDate)"
  by (simp add: onRequest_exit_def Let_def split: prod.splits)

lemma validate_and_compute_rate:
  "validate_and_compute v pf st request key currentTime utcDate = (e, st') \<Longrightarrow>
     rateLimitMap st' = rateLimitMap st \<and> heap st' = heap st \<and> next_ref st' = next_ref st"
  by (auto simp: validate_and_compute_def split: option.splits if_splits)

lemma validate_and_compute_not_limited:
  "fst (validate_and_compute v pf st request key currentTime utcDate) \<noteq> Rate_limited"
  by (auto simp: validate_and_compute_def split: option.splits if_splits)

lemma rate_limit_inside:
  assumes "currentTime - last_rd (window_of st ip currentTime) < 60000"
  shows "client_rateData (snd (rate_limit st ip currentTime)) ip
           = Some ((window_of st ip currentTime)
                     \<lparr>count_rd := count_rd (window_of st ip currentTime) + 1\<rparr>)"
    and "fst (rate_limit st ip currentTime)
           \<longleftrightarrow> 100 < count_rd (window_of st ip currentTime) + 1"
  using assms
  by (auto simp: rate_limit_def rateData_ref_def window_of_def client_rateData_def Let_def
      RATE_LIMIT_WINDOW_MS_def RATE_LIMIT_MAX_REQUESTS_def split: option.splits)

lemma rate_limit_elapsed:
  assumes "60000 \<le> currentTime - last_rd (window_of st ip currentTime)"
  shows "client_rateData (snd (rate_limit st ip currentTime)) ip
           = Some \<lparr>count_rd = 1, last_rd = currentTime\<rparr>"
    and "\<not> fst (rate_limit st ip currentTime)"
  using assms
  by (auto simp: rate_limit_def rateData_ref_def window_of_def client_rateData_def Let_def
      RATE_LIMIT_WINDOW_MS_def RATE_LIMIT_MAX_REQUESTS_def split: option.splits)

lemma admitted_path_rateData:
  assumes "method_name request \<noteq> ''OPTIONS''"
    and "cache_lookup st (generateCacheKey (searchParams request)) currentTime = None"
  shows "client_rateData (snd (onRequest_exit v pf st request currentTime utcDate)) ip
           = client_rateData (snd (rate_limit st (client_ip request) currentTime)) ip"
    and "fst (onRequest_exit v pf st request currentTime utcDate) = Rate_limited
           \<longleftrightarrow> fst (rate_limit st (client_ip request) currentTime)"
proof -
  let ?rl = "rate_limit st (client_ip request) currentTime"
  let ?vc = "validate_and_compute v pf (snd ?rl) request
               (generateCacheKey (searchParams request)) currentTime utcDate"
  have vc: "rateLimitMap (snd ?vc) = rateLimitMap (snd ?rl) \<and> heap (snd ?vc) = heap (snd ?rl)"
    using validate_and_compute_rate [of v pf "snd ?rl" request _ currentTime utcDate "fst ?vc" "snd ?vc"]
    by simp
  show "client_rateData (snd (onRequest_exit v pf st request currentTime utcDate)) ip
           = client_rateData (snd ?rl) ip"
    using vc by (simp add: onRequest_exit_miss [OF assms] client_rateData_def)
  show "fst (onRequest_exit v pf st request currentTime utcDate) = Rate_limited \<longleftrightarrow> fst ?rl"
    using validate_and_compute_not_limited [of v pf "snd ?rl" request _ currentTime utcDate]
    by (simp add: onRequest_exit_miss [OF assms])
qed

section \<open>The rate limiter\<close>

text \<open>
  Claim C1. A request that is neither a preflight nor a cache hit reaches the rate limiter
  at time \<open>currentTime\<close>. Let \<open>rd\<close> be the client's \<open>{count, last}\<close> object (a new
  client gets count 0 and a window starting now). If \<open>currentTime - last < 60000\<close>, the
  count the map shows for the client afterwards is the old count plus one, and the
  request ends at the 429 response exactly when that incremented count exceeds 100. If
  at least 60000 ms have elapsed, the client's object becomes count 1 with the window
  starting at \<open>currentTime\<close>, and the request is not rejected with 429, whatever the
  old count was. The 429 \<^verbatim>\<open>return\<close> comes before \<^verbatim>\<open>rateLimitMap.set\<close>, but the
  object it has incremented is the one the map already holds, so the increment shows in
  the map on that path too.
\<close>

theorem rate_limiter_window:
  assumes "method_name request \<noteq> ''OPTIONS''"
    and "cache_lookup st (generateCacheKey (searchParams request)) currentTime = None"
    and "onRequest_exit v pf st request currentTime utcDate = (e, st')"
    and "rd = window_of st (client_ip request) currentTime"
  shows "fst (onRequest v pf st request currentTime utcDate) = respond e
         \<and> (currentTime - last_rd rd < 60000 \<longrightarrow>
              client_rateData st' (client_ip request) = Some (rd\<lparr>count_rd := count_rd rd + 1\<rparr>)
              \<and> (e = Rate_limited \<longleftrightarrow> 100 < count_rd rd + 1)
              \<and> (status (respond e) = 429 \<longleftrightarrow> 100 < count_rd rd + 1))
         \<and> (60000 \<le> currentTime - last_rd rd \<longrightarrow>
              client_rateData st' (client_ip request) = Some \<lparr>count_rd = 1, last_rd = currentTime\<rparr>
              \<and> e \<noteq> Rate_limited
              \<and> status (respond e) \<noteq> 429)"
proof -
  have e: "e = fst (onRequest_exit v pf st request currentTime utcDate)"
    and st': "st' = snd (onRequest_exit v pf st request currentTime utcDate)"
    using assms(3) by simp_all
  have r: "fst (onRequest v pf st request currentTime utcDate) = respond e"
    by (simp add: onRequest_respond e)
  note path = admitted_path_rateData [OF assms(1,2), of v pf utcDate]
  have inside: "currentTime - last_rd rd < 60000 \<Longrightarrow>
      client_rateData st' (client_ip request) = Some (rd\<lparr>count_rd := count_rd rd + 1\<rparr>)
      \<and> (e = Rate_limited \<longleftrightarrow> 100 < count_rd rd + 1)"
    using rate_limit_inside [of currentTime st "client_ip request"] path
    by (simp add: e st' assms(4))
  have elapsed: "60000 \<le> currentTime - last_rd rd \<Longrightarrow>
      client_rateData st' (client_ip request) = Some \<lparr>count_rd = 1, last_rd = currentTime\<rparr>
      \<and> e \<noteq> Rate_limited"
    using rate_limit_elapsed [of currentTime st "client_ip request"] path
    by (simp add: e st' assms(4))
  from r inside elapsed show ?thesis
    by (simp add: status_respond_429)
qed

text \<open>
  The theorem on the 101st request of a window (count 100, 59999 ms after the window
  start), which is rejected, and on a request 60000 ms after the window start of a client
  at count 500, which is admitted with the count reset to 1.
\<close>

theorem rate_limiter_window_witness:
  "method_name (get_request [(''timezone'', ''Pacific/Auckland'')] ''1.2.3.4'') \<noteq> ''OPTIONS''
   \<and> cache_lookup (state_with_client ''1.2.3.4'' 100 0)
        (generateCacheKey (searchParams (get_request [(''timezone'', ''Pacific/Auckland'')] ''1.2.3.4'')))
        59999 = None
   \<and> 59999 - last_rd \<lparr>count_rd = 100, last_rd = 0\<rparr> < 60000
   \<and> fst (onRequest_exit Api_js (fixed_platform [] NaN) (state_with_client ''1.2.3.4'' 100 0)
          (get_request [(''timezone'', ''Pacific/Auckland'')] ''1.2.3.4'') 59999 59999)
       = Rate_limited
   \<and> client_rateData
        (snd (onRequest_exit Api_js (fixed_platform [] NaN) (state_with_client ''1.2.3.4'' 100 0)
          (get_request [(''timezone'', ''Pacific/Auckland'')] ''1.2.3.4'') 59999 59999))
        ''1.2.3.4'' = Some \<lparr>count_rd = 101, last_rd = 0\<rparr>
   \<and> 60000 \<le> 60000 - last_rd \<lparr>count_rd = 500, last_rd = 0\<rparr>
   \<and> fst (onRequest_exit Api_js (fixed_platform [] NaN) (state_with_client ''1.2.3.4'' 500 0)
          (get_request [(''timezone'', ''Pacific/Auckland'')] ''1.2.3.4'') 60000 60000)
       \<noteq> Rate_limited
   \<and> client_rateData
        (snd (onRequest_exit Api_js (fixed_platform [] NaN) (state_with_client ''1.2.3.4'' 500 0)
          (get_request [(''timezone'', ''Pacific/Auckland'')] ''1.2.3.4'') 60000 60000))
        ''1.2.3.4'' = Some \<lparr>count_rd = 1, last_rd = 60000\<rparr>"
proof -
  let ?R = "get_request [(''timezone'', ''Pacific/Auckland'')] ''1.2.3.4''"
  let ?S = "state_with_client ''1.2.3.4'' 100 0"
  let ?T = "state_with_client ''1.2.3.4'' 500 0"
  let ?P = "fixed_platform [] NaN"
  have m: "method_name ?R \<noteq> ''OPTIONS''" by (simp add: get_request_def)
  have ip: "client_ip ?R = ''1.2.3.4''" by (simp add: get_request_def client_ip_def)
  have c1: "cache_lookup ?S (generateCacheKey (searchParams ?R)) 59999 = None"
    by (simp add: cache_lookup_def state_with_client_def)
  have c2: "cache_lookup ?T (generateCacheKey (searchParams ?R)) 60000 = None"
    by (simp add: cache_lookup_def state_with_client_def)
  have w1: "\<lparr>count_rd = 100, last_rd = 0\<rparr> = window_of ?S (client_ip ?R) 59999"
    by (simp add: ip window_of_def client_rateData_def state_with_client_def)
  have w2: "\<lparr>count_rd = 500, last_rd = 0\<rparr> = window_of ?T (client_ip ?R) 60000"
    by (simp add: ip window_of_def client_rateData_def state_with_client_def)
  from rate_limiter_window [OF m c1 prod.collapse [symmetric] w1, of Api_js ?P 59999]
  have r1: "fst (onRequest_exit Api_js ?P ?S ?R 59999 59999) = Rate_limited
      \<and> client_rateData (snd (onRequest_exit Api_js ?P ?S ?R 59999 59999)) ''1.2.3.4''
          = Some \<lparr>count_rd = 101, last_rd = 0\<rparr>"
    by (simp add: ip)
  from rate_limiter_window [OF m c2 prod.collapse [symmetric] w2, of Api_js ?P 60000]
  have r2: "fst (onRequest_exit Api_js ?P ?T ?R 60000 60000) \<noteq> Rate_limited
      \<and> client_rateData (snd (onRequest_exit Api_js ?P ?T ?R 60000 60000)) ''1.2.3.4''
          = Some \<lparr>count_rd = 1, last_rd = 60000\<rparr>"
    by (simp add: ip)
  from m c1 r1 r2 show ?thesis by simp
qed

text \<open>
  One client sends 101 requests at one instant, none of them cacheable (they lack the
  timezone): the first hundred pass the rate limiter, the 101st is rejected. So is a
  request 59999 ms later; a request 60000 ms later starts a new window and passes.
\<close>

lemma hundred_and_first_request:
  "fst (serve Api_js (fixed_platform [] NaN) initial_state
          (replicate 101 (get_request [] ''1.2.3.4'', 0, 0)
           @ [(get_request [] ''1.2.3.4'', 59999, 59999),
              (get_request [] ''1.2.3.4'', 60000, 60000)]))
     = replicate 100 Missing_timezone @ [Rate_limited, Rate_limited, Missing_timezone]"
  by code_simp

section \<open>The response cache\<close>

lemma rate_limit_cache: "responseCache (snd (rate_limit st ip currentTime)) = responseCache st"
  by (simp add: rate_limit_def rateData_ref_def Let_def split: option.splits prod.splits)

lemma validate_and_compute_cache:
  "validate_and_compute v pf st request key currentTime utcDate = (e, st') \<Longrightarrow>
     responseCache st' =
       (case e of
          Success payload \<Rightarrow>
            (responseCache st)(key \<mapsto> \<lparr>response = payload, timestamp = currentTime\<rparr>)
        | _ \<Rightarrow> responseCache st)"
  by (auto simp: validate_and_compute_def split: option.splits if_splits)

lemma validate_and_compute_exits:
  "validate_and_compute v pf st request key currentTime utcDate = (e, st') \<Longrightarrow>
     e \<noteq> Preflight \<and> e \<noteq> Rate_limited \<and> (\<forall>payload. e \<noteq> Cache_hit payload)"
  by (auto simp: validate_and_compute_def split: option.splits if_splits)

lemma onRequest_exit_cache:
  assumes "onRequest_exit v pf st request currentTime utcDate = (e, st')"
  shows "responseCache st' =
       (case e of
          Success payload \<Rightarrow>
            (responseCache st)(generateCacheKey (searchParams request)
               \<mapsto> \<lparr>response = payload, timestamp = currentTime\<rparr>)
        | _ \<Rightarrow> responseCache st)"
proof (cases "method_name request = ''OPTIONS''")
  case True
  with assms show ?thesis by (auto simp: onRequest_exit_preflight)
next
  case False
  show ?thesis
  proof (cases "cache_lookup st (generateCacheKey (searchParams request)) currentTime")
    case (Some payload)
    with False assms show ?thesis by (auto simp: onRequest_exit_hit)
  next
    case None
    let ?rl = "rate_limit st (client_ip request) currentTime"
    show ?thesis
    proof (cases "fst ?rl")
      case True
      with assms show ?thesis
        by (auto simp: onRequest_exit_miss [OF False None] rate_limit_cache)
    next
      case lim: False
      with assms have "validate_and_compute v pf (snd ?rl) request
          (generateCacheKey (searchParams request)) currentTime utcDate = (e, st')"
        by (simp add: onRequest_exit_miss [OF False None])
      from validate_and_compute_cache [OF this] show ?thesis
        by (simp add: rate_limit_cache split: exit.splits)
    qed
  qed
qed

lemma onRequest_exit_hit_iff:
  assumes "method_name request \<noteq> ''OPTIONS''"
    and "onRequest_exit v pf st request currentTime utcDate = (e, st')"
  shows "e = Cache_hit payload
     \<longleftrightarrow> cache_lookup st (generateCacheKey (searchParams request)) currentTime = Some payload"
proof (cases "cache_lookup st (generateCacheKey (searchParams request)) currentTime")
  case (Some p)
  with assms show ?thesis by (auto simp: onRequest_exit_hit)
next
  case None
  let ?rl = "rate_limit st (client_ip request) currentTime"
  show ?thesis
  proof (cases "fst ?rl")
    case True
    with assms None show ?thesis by (auto simp: onRequest_exit_miss [OF assms(1) None])
  next
    case False
    with assms have "validate_and_compute v pf (snd ?rl) request
        (generateCacheKey (searchParams request)) currentTime utcDate = (e, st')"
      by (simp add: onRequest_exit_miss [OF assms(1) None])
    from validate_and_compute_exits [OF this] None show ?thesis by simp
  qed
qed

lemma cache_lookup_Some:
  "cache_lookup st key currentTime = Some payload
     \<longleftrightarrow> (\<exists>entry. responseCache st key = Some entry \<and> currentTime - timestamp entry \<le> 1000
            \<and> response entry = payload)"
  by (auto simp: cache_lookup_def split: option.splits)

text \<open>
  Claim C2. For a request that is not a preflight, with cache key \<open>cacheKey\<close> at time
  \<open>currentTime\<close>: the handler returns at the cache hit if and only if the cache holds an
  entry for the key with \<open>currentTime - timestamp \<le> 1000\<close>. A hit leaves the state as it
  is and responds 200 with the serialisation of the stored payload, the same response the
  request that stored it received. An entry older than 1000 ms is not returned and not
  deleted: after the request the key holds the old entry, unless the request succeeded
  and stored its own payload; a request for another key leaves the entry alone.
\<close>

theorem cache_lookup_freshness:
  assumes "method_name request \<noteq> ''OPTIONS''"
    and "onRequest_exit v pf st request currentTime utcDate = (e, st')"
    and "cacheKey = generateCacheKey (searchParams request)"
  shows "((\<exists>payload. e = Cache_hit payload)
            \<longleftrightarrow> (\<exists>entry. responseCache st cacheKey = Some entry
                   \<and> currentTime - timestamp entry \<le> 1000))
         \<and> (\<forall>entry. responseCache st cacheKey = Some entry
                \<and> currentTime - timestamp entry \<le> 1000 \<longrightarrow>
              e = Cache_hit (response entry) \<and> st' = st
              \<and> fst (onRequest v pf st request currentTime utcDate)
                  = \<lparr>status = 200,
                     headers = [(''Content-Type'', ''application/json''),
                                (''Cache-Control'', ''public, max-age=1'')] @ corsHeaders,
                     body = JSON_stringify_indent (response entry) 2\<rparr>
              \<and> respond (Cache_hit (response entry)) = respond (Success (response entry)))
         \<and> (\<forall>entry. responseCache st cacheKey = Some entry
                \<and> 1000 < currentTime - timestamp entry \<longrightarrow>
              (\<forall>payload. e \<noteq> Cache_hit payload)
              \<and> responseCache st' cacheKey =
                  (case e of
                     Success payload \<Rightarrow> Some \<lparr>response = payload, timestamp = currentTime\<rparr>
                   | _ \<Rightarrow> Some entry))
         \<and> (\<forall>key. key \<noteq> cacheKey \<longrightarrow> responseCache st' key = responseCache st key)"
proof -
  note hit = onRequest_exit_hit_iff [OF assms(1,2), folded assms(3)]
  have a: "(\<exists>payload. e = Cache_hit payload)
      \<longleftrightarrow> (\<exists>entry. responseCache st cacheKey = Some entry \<and> currentTime - timestamp entry \<le> 1000)"
    by (auto simp: hit cache_lookup_Some)
  have b: "e = Cache_hit (response entry) \<and> st' = st
      \<and> fst (onRequest v pf st request currentTime utcDate)
          = \<lparr>status = 200,
             headers = [(''Content-Type'', ''application/json''),
                        (''Cache-Control'', ''public, max-age=1'')] @ corsHeaders,
             body = JSON_stringify_indent (response entry) 2\<rparr>
      \<and> respond (Cache_hit (response entry)) = respond (Success (response entry))"
    if "responseCache st cacheKey = Some entry" "currentTime - timestamp entry \<le> 1000" for entry
  proof -
    from that have "cache_lookup st (generateCacheKey (searchParams request)) currentTime
        = Some (response entry)"
      by (simp add: cache_lookup_def assms(3))
    from onRequest_exit_hit [OF assms(1) this, of v pf utcDate] assms(2)
    show ?thesis by (simp add: onRequest_respond ok_response_def)
  qed
  have c: "(\<forall>payload. e \<noteq> Cache_hit payload)
      \<and> responseCache st' cacheKey =
          (case e of
             Success payload \<Rightarrow> Some \<lparr>response = payload, timestamp = currentTime\<rparr>
           | _ \<Rightarrow> Some entry)"
    if "responseCache st cacheKey = Some entry" "1000 < currentTime - timestamp entry" for entry
    using that onRequest_exit_cache [OF assms(2)]
    by (auto simp: hit cache_lookup_Some assms(3) split: exit.splits)
  have d: "responseCache st' key = responseCache st key" if "key \<noteq> cacheKey" for key
    using that onRequest_exit_cache [OF assms(2)]
    by (auto simp: assms(3) split: exit.splits)
  from a b c d show ?thesis by blast
qed

lemma key_example:
  "generateCacheKey (searchParams (get_request [(''timezone'', ''Pacific/Auckland'')] ip))
     = ''timezone=Pacific/Auckland''"
  by (simp add: get_request_def generateCacheKey_def searchParams_get_def)

text \<open>
  The theorem on an entry stored at 5000: a request at 6000 is a hit, a request at 6001 is
  not.
\<close>

theorem cache_lookup_freshness_witness:
  "method_name (get_request [(''timezone'', ''Pacific/Auckland'')] ''1.2.3.4'') \<noteq> ''OPTIONS''
   \<and> responseCache
        (state_with_entry ''timezone=Pacific/Auckland'' (JObject [(''timezone'', JString ''Pacific/Auckland'')])
           5000 ''1.2.3.4'' 0 0) ''timezone=Pacific/Auckland''
       = Some \<lparr>response = JObject [(''timezone'', JString ''Pacific/Auckland'')], timestamp = 5000\<rparr>
   \<and> fst (onRequest_exit Part_000 (fixed_platform [] NaN)
          (state_with_entry ''timezone=Pacific/Auckland'' (JObject [(''timezone'', JString ''Pacific/Auckland'')])
             5000 ''1.2.3.4'' 0 0)
          (get_request [(''timezone'', ''Pacific/Auckland'')] ''1.2.3.4'') 6000 6000)
       = Cache_hit (JObject [(''timezone'', JString ''Pacific/Auckland'')])
   \<and> (\<forall>payload. fst (onRequest_exit Part_000 (fixed_platform [] NaN)
          (state_with_entry ''timezone=Pacific/Auckland'' (JObject [(''timezone'', JString ''Pacific/Auckland'')])
             5000 ''1.2.3.4'' 0 0)
          (get_request [(''timezone'', ''Pacific/Auckland'')] ''1.2.3.4'') 6001 6001)
       \<noteq> Cache_hit payload)"
proof -
  let ?R = "get_request [(''timezone'', ''Pacific/Auckland'')] ''1.2.3.4''"
  let ?p = "JObject [(''timezone'', JString ''Pacific/Auckland'')]"
  let ?S = "state_with_entry ''timezone=Pacific/Auckland'' ?p 5000 ''1.2.3.4'' 0 0"
  let ?P = "fixed_platform [] NaN"
  have m: "method_name ?R \<noteq> ''OPTIONS''" by (simp add: get_request_def)
  have k: "''timezone=Pacific/Auckland'' = generateCacheKey (searchParams ?R)"
    by (simp add: key_example)
  have c: "responseCache ?S ''timezone=Pacific/Auckland''
      = Some \<lparr>response = ?p, timestamp = 5000\<rparr>"
    by (simp add: state_with_entry_def)
  from cache_lookup_freshness [OF m prod.collapse [symmetric] k, of Part_000 ?P ?S 6000 6000] c
  have h: "fst (onRequest_exit Part_000 ?P ?S ?R 6000 6000) = Cache_hit ?p"
    by simp
  from cache_lookup_freshness [OF m prod.collapse [symmetric] k, of Part_000 ?P ?S 6001 6001] c
  have s: "\<forall>payload. fst (onRequest_exit Part_000 ?P ?S ?R 6001 6001) \<noteq> Cache_hit payload"
    by simp
  from m c h s show ?thesis by blast
qed

section \<open>A cache hit bypasses the rate limiter\<close>

text \<open>
  Claim C3. A request that is not a preflight and whose cache key has an entry at most
  1000 ms old returns at the cache hit, before the rate limiter and the validation of the
  timezone run: the state after the request is the state before it (the rate-limit map
  and the objects it refers to are unchanged), and the response is the 200 response with
  the cached payload, never the 429 response, whatever count the client has reached.
\<close>

theorem cache_hit_bypasses_rate_limiter:
  assumes "method_name request \<noteq> ''OPTIONS''"
    and "responseCache st (generateCacheKey (searchParams request)) = Some entry"
    and "currentTime - timestamp entry \<le> 1000"
  shows "onRequest_exit v pf st request currentTime utcDate = (Cache_hit (response entry), st)
         \<and> onRequest v pf st request currentTime utcDate = (ok_response (response entry), st)
         \<and> rateLimitMap (snd (onRequest v pf st request currentTime utcDate)) = rateLimitMap st
         \<and> heap (snd (onRequest v pf st request currentTime utcDate)) = heap st
         \<and> status (fst (onRequest v pf st request currentTime utcDate)) = 200
         \<and> status (fst (onRequest v pf st request currentTime utcDate)) \<noteq> 429"
proof -
  from assms(2,3)
  have "cache_lookup st (generateCacheKey (searchParams request)) currentTime
      = Some (response entry)"
    by (simp add: cache_lookup_def)
  from onRequest_exit_hit [OF assms(1) this, of v pf utcDate]
  show ?thesis by (simp add: onRequest_respond ok_response_def)
qed

text \<open>The theorem on a client at count 500 inside its window, with an entry 500 ms old.\<close>

theorem cache_hit_bypasses_rate_limiter_witness:
  "method_name (get_request [(''timezone'', ''Pacific/Auckland'')] ''1.2.3.4'') \<noteq> ''OPTIONS''
   \<and> count_rd (window_of
        (state_with_entry ''timezone=Pacific/Auckland'' (JObject [(''timezone'', JString ''Pacific/Auckland'')])
           5000 ''1.2.3.4'' 500 5000) ''1.2.3.4'' 5500) = 500
   \<and> onRequest_exit Api_js (fixed_platform [] NaN)
        (state_with_entry ''timezone=Pacific/Auckland'' (JObject [(''timezone'', JString ''Pacific/Auckland'')])
           5000 ''1.2.3.4'' 500 5000)
        (get_request [(''timezone'', ''Pacific/Auckland'')] ''1.2.3.4'') 5500 5500
       = (Cache_hit (JObject [(''timezone'', JString ''Pacific/Auckland'')]),
          state_with_entry ''timezone=Pacific/Auckland'' (JObject [(''timezone'', JString ''Pacific/Auckland'')])
            5000 ''1.2.3.4'' 500 5000)
   \<and> status (fst (onRequest Api_js (fixed_platform [] NaN)
        (state_with_entry ''timezone=Pacific/Auckland'' (JObject [(''timezone'', JString ''Pacific/Auckland'')])
           5000 ''1.2.3.4'' 500 5000)
        (get_request [(''timezone'', ''Pacific/Auckland'')] ''1.2.3.4'') 5500 5500)) = 200"
proof -
  let ?R = "get_request [(''timezone'', ''Pacific/Auckland'')] ''1.2.3.4''"
  let ?p = "JObject [(''timezone'', JString ''Pacific/Auckland'')]"
  let ?S = "state_with_entry ''timezone=Pacific/Auckland'' ?p 5000 ''1.2.3.4'' 500 5000"
  let ?P = "fixed_platform [] NaN"
  have m: "method_name ?R \<noteq> ''OPTIONS''" by (simp add: get_request_def)
  have c: "responseCache ?S (generateCacheKey (searchParams ?R))
      = Some \<lparr>response = ?p, timestamp = 5000\<rparr>"
    by (simp add: key_example state_with_entry_def)
  have f: "5500 - timestamp \<lparr>response = ?p, timestamp = 5000\<rparr> \<le> 1000" by simp
  have w: "count_rd (window_of ?S ''1.2.3.4'' 5500) = 500"
    by (simp add: window_of_def client_rateData_def state_with_entry_def)
  from cache_hit_bypasses_rate_limiter [OF m c f, of Api_js ?P 5500] m w
  show ?thesis by (simp add: ok_response_def)
qed

section \<open>The cache is written on the success path only\<close>

lemma timeReport_keys:
  "timeReport v pf utcDate timezone = Some payload \<Longrightarrow>
     (\<exists>members. payload = JObject members) \<and> ''error'' \<notin> set (json_keys payload)
     \<and> ''local_time'' \<in> set (json_keys payload)"
  by (cases v)
    (auto simp: timeReport_api_js_def timeReport_part_000_def timeReport_part_001_def
      json_keys_def Let_def split: Option.bind_splits)

lemma validate_and_compute_success:
  "validate_and_compute v pf st request key currentTime utcDate = (Success payload, st') \<Longrightarrow>
     computed_payload v pf payload"
  by (auto simp: validate_and_compute_def computed_payload_def split: option.splits if_splits)

lemma onRequest_exit_success:
  assumes "onRequest_exit v pf st request currentTime utcDate = (Success payload, st')"
  shows "computed_payload v pf payload"
proof -
  have m: "method_name request \<noteq> ''OPTIONS''"
    using assms by (auto simp: onRequest_exit_def)
  have c: "cache_lookup st (generateCacheKey (searchParams request)) currentTime = None"
    using assms m by (auto simp: onRequest_exit_def Let_def split: option.splits)
  from assms show ?thesis
    by (auto simp: onRequest_exit_miss [OF m c] split: if_splits
        dest: validate_and_compute_success)
qed

lemma serve_cache_entries:
  "serve v pf st0 events = (es, st) \<Longrightarrow>
     (\<forall>key entry. responseCache st key = Some entry \<longrightarrow>
        responseCache st0 key = Some entry \<or> Success (response entry) \<in> set es)
     \<and> (\<forall>payload. Cache_hit payload \<in> set es \<longrightarrow>
          (\<exists>key entry. responseCache st0 key = Some entry \<and> response entry = payload)
          \<or> Success payload \<in> set es)"
proof (induction events arbitrary: st0 es st)
  case Nil
  then show ?case by simp
next
  case (Cons ev events)
  obtain request currentTime utcDate where ev: "ev = (request, currentTime, utcDate)"
    by (cases ev) auto
  obtain e st1 where step: "onRequest_exit v pf st0 request currentTime utcDate = (e, st1)"
    by (cases "onRequest_exit v pf st0 request currentTime utcDate") auto
  obtain es' where tl: "serve v pf st1 events = (es', st)" and es: "es = e # es'"
    using Cons.prems by (auto simp: ev step split: prod.splits)
  note IH = Cons.IH [OF tl]
  note cache = onRequest_exit_cache [OF step]
  have entries: "responseCache st0 key = Some entry \<or> Success (response entry) \<in> set es"
    if "responseCache st key = Some entry" for key entry
  proof -
    from IH that
    consider "responseCache st1 key = Some entry" | "Success (response entry) \<in> set es'"
      by blast
    then show ?thesis
    proof cases
      case 1
      with cache show ?thesis
        by (cases e) (auto simp: es split: if_splits)
    next
      case 2
      then show ?thesis by (simp add: es)
    qed
  qed
  have hits: "(\<exists>key entry. responseCache st0 key = Some entry \<and> response entry = payload)
      \<or> Success payload \<in> set es"
    if "Cache_hit payload \<in> set es" for payload
  proof -
    from that consider "e = Cache_hit payload" | "Cache_hit payload \<in> set es'"
      by (auto simp: es)
    then show ?thesis
    proof cases
      case 1
      have m: "method_name request \<noteq> ''OPTIONS''"
        using step 1 by (auto simp: onRequest_exit_def)
      from onRequest_exit_hit_iff [OF m step, of payload] 1
      show ?thesis by (auto simp: cache_lookup_Some)
    next
      case 2
      with IH
      consider key entry where "responseCache st1 key = Some entry" "response entry = payload"
        | "Success payload \<in> set es'"
        by blast
      then show ?thesis
      proof cases
        case 1
        with cache show ?thesis
          by (cases e) (auto simp: es split: if_splits)
      next
        case 2
        then show ?thesis by (simp add: es)
      qed
    qed
  qed
  from entries hits show ?case by blast
qed

lemma serve_success_computed:
  "serve v pf st0 events = (es, st) \<Longrightarrow> Success payload \<in> set es \<Longrightarrow> computed_payload v pf payload"
proof (induction events arbitrary: st0 es st)
  case Nil
  then show ?case by simp
next
  case (Cons ev events)
  obtain request currentTime utcDate where ev: "ev = (request, currentTime, utcDate)"
    by (cases ev) auto
  obtain e st1 where step: "onRequest_exit v pf st0 request currentTime utcDate = (e, st1)"
    by (cases "onRequest_exit v pf st0 request currentTime utcDate") auto
  obtain es' where tl: "serve v pf st1 events = (es', st)" and es: "es = e # es'"
    using Cons.prems by (auto simp: ev step split: prod.splits)
  from Cons.prems(2) consider "e = Success payload" | "Success payload \<in> set es'"
    by (auto simp: es)
  then show ?case
  proof cases
    case 1
    with step show ?thesis by (auto dest: onRequest_exit_success)
  next
    case 2
    from Cons.IH [OF tl 2] show ?thesis .
  qed
qed

text \<open>
  Claim C9. A request that ends at the preflight 204, the rate-limited 429, the
  missing-parameter 400, the invalid-format 400, the invalid-timezone 400 or the
  internal-error 500 response leaves the response cache as it was; so does every request
  whose response is not a 200. Consequently, after any sequence of requests served from
  the state of a freshly loaded module, every cache entry holds the payload of an earlier
  successful request, built by the \<^verbatim>\<open>try\<close> block; and every cache hit of the sequence
  responds 200 with the serialisation of such a payload, an object without an
  \<open>error\<close> key.
\<close>

theorem cache_written_only_on_success:
  "(\<forall>e st'. onRequest_exit v pf st request currentTime utcDate = (e, st')
       \<and> e \<in> {Preflight, Rate_limited, Missing_timezone, Invalid_format, Internal_error}
             \<union> range Invalid_timezone
       \<longrightarrow> status (respond e) \<in> {204, 429, 400, 500} \<and> responseCache st' = responseCache st)
   \<and> (\<forall>e st'. onRequest_exit v pf st request currentTime utcDate = (e, st')
       \<and> status (respond e) \<noteq> 200 \<longrightarrow> responseCache st' = responseCache st)
   \<and> (\<forall>events es st'. serve v pf initial_state events = (es, st') \<longrightarrow>
        (\<forall>key entry. responseCache st' key = Some entry \<longrightarrow>
           Success (response entry) \<in> set es \<and> computed_payload v pf (response entry))
        \<and> (\<forall>payload. Cache_hit payload \<in> set es \<longrightarrow>
             Success payload \<in> set es
             \<and> status (respond (Cache_hit payload)) = 200
             \<and> body (respond (Cache_hit payload)) = JSON_stringify_indent payload 2
             \<and> ''error'' \<notin> set (json_keys payload)))"
proof -
  have a: "status (respond e) \<in> {204, 429, 400, 500} \<and> responseCache st' = responseCache st"
    if "onRequest_exit v pf st request currentTime utcDate = (e, st')"
      "e \<in> {Preflight, Rate_limited, Missing_timezone, Invalid_format, Internal_error}
             \<union> range Invalid_timezone" for e st'
    using onRequest_exit_cache [OF that(1)] that(2)
    by (auto simp: error_response_def)
  have b: "responseCache st' = responseCache st"
    if "onRequest_exit v pf st request currentTime utcDate = (e, st')"
      "status (respond e) \<noteq> 200" for e st'
    using onRequest_exit_cache [OF that(1)] that(2)
    by (cases e) (auto simp: ok_response_def)
  have c: "(\<forall>key entry. responseCache st' key = Some entry \<longrightarrow>
           Success (response entry) \<in> set es \<and> computed_payload v pf (response entry))
        \<and> (\<forall>payload. Cache_hit payload \<in> set es \<longrightarrow>
             Success payload \<in> set es
             \<and> status (respond (Cache_hit payload)) = 200
             \<and> body (respond (Cache_hit payload)) = JSON_stringify_indent payload 2
             \<and> ''error'' \<notin> set (json_keys payload))"
    if run: "serve v pf initial_state events = (es, st')" for events es st'
  proof -
    from serve_cache_entries [OF run]
    have e1: "Success (response entry) \<in> set es" if "responseCache st' key = Some entry" for key entry
      using that by (auto simp: initial_state_def)
    from serve_cache_entries [OF run]
    have e2: "Success payload \<in> set es" if "Cache_hit payload \<in> set es" for payload
      using that by (auto simp: initial_state_def)
    have e3: "''error'' \<notin> set (json_keys payload)" if "Success payload \<in> set es" for payload
      using serve_success_computed [OF run that] timeReport_keys
      by (auto simp: computed_payload_def)
    from e1 e2 e3 serve_success_computed [OF run] show ?thesis
      by (auto simp: ok_response_def)
  qed
  from a b c show ?thesis by blast
qed

lemma auckland_run:
  "fst (serve Part_000 (fixed_platform (parts_of ''2025'' ''01'' ''01'' ''12'' ''00'' ''00'') NaN)
          initial_state
          [(get_request [(''timezone'', ''Pacific/Auckland'')] ''1.2.3.4'', 1735686000123, 1735686000123),
           (get_request [(''timezone'', ''Pacific/Auckland'')] ''1.2.3.4'', 1735686000623, 1735686000623)])
     = [Success auckland_report, Cache_hit auckland_report]"
  by code_simp

text \<open>
  The theorem on a request without a timezone (the cache is left alone), and on two
  requests 500 ms apart for Pacific/Auckland (a success, then a hit with its payload).
\<close>

theorem cache_written_only_on_success_witness:
  "fst (onRequest_exit Part_000 (fixed_platform [] NaN)
          (state_with_entry ''timezone=Pacific/Auckland'' auckland_report 5000 ''1.2.3.4'' 0 0)
          (get_request [] ''1.2.3.4'') 9000 9000) = Missing_timezone
   \<and> responseCache (snd (onRequest_exit Part_000 (fixed_platform [] NaN)
          (state_with_entry ''timezone=Pacific/Auckland'' auckland_report 5000 ''1.2.3.4'' 0 0)
          (get_request [] ''1.2.3.4'') 9000 9000))
       = responseCache (state_with_entry ''timezone=Pacific/Auckland'' auckland_report 5000 ''1.2.3.4'' 0 0)
   \<and> Cache_hit auckland_report
       \<in> set (fst (serve Part_000
            (fixed_platform (parts_of ''2025'' ''01'' ''01'' ''12'' ''00'' ''00'') NaN) initial_state
            [(get_request [(''timezone'', ''Pacific/Auckland'')] ''1.2.3.4'', 1735686000123, 1735686000123),
             (get_request [(''timezone'', ''Pacific/Auckland'')] ''1.2.3.4'', 1735686000623, 1735686000623)]))
   \<and> Success auckland_report
       \<in> set (fst (serve Part_000
            (fixed_platform (parts_of ''2025'' ''01'' ''01'' ''12'' ''00'' ''00'') NaN) initial_state
            [(get_request [(''timezone'', ''Pacific/Auckland'')] ''1.2.3.4'', 1735686000123, 1735686000123),
             (get_request [(''timezone'', ''Pacific/Auckland'')] ''1.2.3.4'', 1735686000623, 1735686000623)]))
   \<and> status (respond (Cache_hit auckland_report)) = 200
   \<and> ''error'' \<notin> set (json_keys auckland_report)"
proof -
  let ?S = "state_with_entry ''timezone=Pacific/Auckland'' auckland_report 5000 ''1.2.3.4'' 0 0"
  let ?A = "fixed_platform (parts_of ''2025'' ''01'' ''01'' ''12'' ''00'' ''00'') NaN"
  let ?R = "get_request [(''timezone'', ''Pacific/Auckland'')] ''1.2.3.4''"
  let ?run = "serve Part_000 ?A initial_state
      [(?R, 1735686000123, 1735686000123), (?R, 1735686000623, 1735686000623)]"
  have e: "fst (onRequest_exit Part_000 (fixed_platform [] NaN) ?S (get_request [] ''1.2.3.4'')
      9000 9000) = Missing_timezone"
    by code_simp
  have h: "Cache_hit auckland_report \<in> set (fst ?run)"
    unfolding auckland_run by simp
  note first_part = cache_written_only_on_success
    [of Part_000 "fixed_platform [] NaN" ?S "get_request [] ''1.2.3.4''" 9000 9000]
  from first_part e
  have u: "responseCache (snd (onRequest_exit Part_000 (fixed_platform [] NaN) ?S
      (get_request [] ''1.2.3.4'') 9000 9000)) = responseCache ?S"
    by (metis insertCI UnI1 prod.collapse)
  from cache_written_only_on_success
    [of Part_000 ?A initial_state ?R 0 0] h
  have r: "Success auckland_report \<in> set (fst ?run)
      \<and> status (respond (Cache_hit auckland_report)) = 200
      \<and> ''error'' \<notin> set (json_keys auckland_report)"
    by (metis prod.collapse)
  from e u h r show ?thesis by blast
qed

section \<open>The cache key is independent of the order of the parameters\<close>

lemma map_of_find:
  "map_of params name = map_option snd (find (\<lambda>pair. fst pair = name) params)"
  by (induction params) auto

lemma generateCacheKey_canonical:
  "generateCacheKey params = canonical_key (sort (map fst params)) (first_value params)"
proof -
  have "(case searchParams_get params key of None \<Rightarrow> ''null'' | Some v \<Rightarrow> v)
      = first_value params key" for key
    by (simp add: first_value_def searchParams_get_def map_of_find split: option.splits)
  then show ?thesis
    by (simp add: generateCacheKey_def canonical_key_def)
qed

text \<open>
  Claim C5, as stated: two queries with the same set of parameter names and the same first
  values get the same key. The code keeps a repeated name as often as it occurs: the
  queries \<^verbatim>\<open>a=1\<close> and \<^verbatim>\<open>a=1&a=2\<close> have the same set of names and the same first
  values, and their keys are \<^verbatim>\<open>a=1\<close> and \<^verbatim>\<open>a=1&a=1\<close>.
\<close>

theorem generateCacheKey_repeated_name_counterexample:
  "set (map fst [(''a'', ''1'')]) = set (map fst [(''a'', ''1''), (''a'', ''2'')])
   \<and> searchParams_get [(''a'', ''1'')] = searchParams_get [(''a'', ''1''), (''a'', ''2'')]
   \<and> generateCacheKey [(''a'', ''1'')] = ''a=1''
   \<and> generateCacheKey [(''a'', ''1''), (''a'', ''2'')] = ''a=1&a=1''
   \<and> generateCacheKey [(''a'', ''1'')] \<noteq> generateCacheKey [(''a'', ''1''), (''a'', ''2'')]"
proof -
  have g: "searchParams_get [(''a'', ''1'')] = searchParams_get [(''a'', ''1''), (''a'', ''2'')]"
    by (rule ext) (simp add: searchParams_get_def)
  have k1: "generateCacheKey [(''a'', ''1'')] = ''a=1''" by code_simp
  have k2: "generateCacheKey [(''a'', ''1''), (''a'', ''2'')] = ''a=1&a=1''" by code_simp
  from g k1 k2 show ?thesis by simp
qed

text \<open>
  Claim C5, amended. \<^verbatim>\<open>generateCacheKey\<close> is a function of the query, and for two
  queries that carry the same parameter names, each as often in one as in the other, with
  the same first values, in any order, it produces identical keys: the names in sorted
  order, a repeated name as often as it occurs, each joined to its first value as
  \<open>name=value\<close>, the pairs joined with \<open>&\<close>.
\<close>

theorem generateCacheKey_order_independent:
  assumes "mset (map fst params1) = mset (map fst params2)"
    and "searchParams_get params1 = searchParams_get params2"
  shows "generateCacheKey params1 = generateCacheKey params2
         \<and> (\<exists>names. sorted names \<and> mset names = mset (map fst params1)
              \<and> generateCacheKey params1 = canonical_key names (first_value params1))"
proof -
  have "sort (map fst params1) = sort (map fst params2)"
    by (rule properties_for_sort) (simp_all add: assms(1) [symmetric] del: mset_map)
  moreover have "first_value params1 name = first_value params2 name" for name
    using fun_cong [OF assms(2), of name]
    by (auto simp: first_value_def searchParams_get_def map_of_find split: option.splits)
  then have "first_value params1 = first_value params2" by (rule ext)
  ultimately have "generateCacheKey params1 = generateCacheKey params2"
    by (simp add: generateCacheKey_canonical)
  moreover have "sorted (sort (map fst params1))
      \<and> mset (sort (map fst params1)) = mset (map fst params1)"
    by simp
  ultimately show ?thesis
    using generateCacheKey_canonical [of params1] by blast
qed

text \<open>The theorem on \<^verbatim>\<open>timezone=A&format=B\<close> and \<^verbatim>\<open>format=B&timezone=A\<close>.\<close>

theorem generateCacheKey_order_independent_witness:
  "mset (map fst [(''timezone'', ''A''), (''format'', ''B'')])
     = mset (map fst [(''format'', ''B''), (''timezone'', ''A'')])
   \<and> searchParams_get [(''timezone'', ''A''), (''format'', ''B'')]
     = searchParams_get [(''format'', ''B''), (''timezone'', ''A'')]
   \<and> generateCacheKey [(''timezone'', ''A''), (''format'', ''B'')]
     = generateCacheKey [(''format'', ''B''), (''timezone'', ''A'')]
   \<and> generateCacheKey [(''format'', ''B''), (''timezone'', ''A'')] = ''format=B&timezone=A''"
proof -
  have m: "mset (map fst [(''timezone'', ''A''), (''format'', ''B'')])
      = mset (map fst [(''format'', ''B''), (''timezone'', ''A'')])"
    by simp
  have g: "searchParams_get [(''timezone'', ''A''), (''format'', ''B'')]
      = searchParams_get [(''format'', ''B''), (''timezone'', ''A'')]"
    by (rule ext) (simp add: searchParams_get_def)
  have k: "generateCacheKey [(''format'', ''B''), (''timezone'', ''A'')] = ''format=B&timezone=A''"
    by code_simp
  from generateCacheKey_order_independent [OF m g] m g k show ?thesis by simp
qed

section \<open>The duration between the local and the UTC view\<close>

lemma timeReport_api_js_duration:
  "\<exists>payload. timeReport Api_js pf now timezone = Some payload
     \<and> json_field payload ''duration_since_utc'' = Some (JString (toHuman pf (Num 0)))"
  by (simp add: timeReport_api_js_def json_field_def diff_toMillis_def setZone_def
      DateTime_utc_def Let_def)

lemma computed_payload_duration:
  "computed_payload Api_js pf payload \<Longrightarrow>
     json_field payload ''duration_since_utc'' = Some (JString (toHuman pf (Num 0)))"
  by (auto simp: computed_payload_def timeReport_api_js_def json_field_def diff_toMillis_def
      setZone_def DateTime_utc_def Let_def)

text \<open>
  Claim C10. In functions/api.js the field \<open>duration_since_utc\<close> is the rendering of
  \<^verbatim>\<open>localNow.diff(utcNow)\<close>, and \<open>localNow\<close> is \<open>utcNow\<close> viewed in the requested
  zone: the two are the same instant, so the field is the human-readable rendering of a
  duration of zero milliseconds, for every instant and timezone, whatever offset luxon
  reports for the zone; and so it is in the payload of every request that succeeds.
\<close>

theorem duration_since_utc_zero:
  "(\<exists>payload. timeReport Api_js pf now timezone = Some payload
      \<and> json_field payload ''duration_since_utc'' = Some (JString (toHuman pf (Num 0))))
   \<and> (\<forall>f. \<exists>payload. timeReport Api_js (pf\<lparr>offset := f\<rparr>) now timezone = Some payload
      \<and> json_field payload ''duration_since_utc'' = Some (JString (toHuman pf (Num 0))))
   \<and> (\<forall>st request currentTime payload st'.
        onRequest_exit Api_js pf st request currentTime now = (Success payload, st')
        \<longrightarrow> json_field payload ''duration_since_utc'' = Some (JString (toHuman pf (Num 0))))"
proof -
  have a: "\<exists>payload. timeReport Api_js pf' now timezone = Some payload
      \<and> json_field payload ''duration_since_utc'' = Some (JString (toHuman pf' (Num 0)))" for pf'
    using timeReport_api_js_duration .
  have b: "\<exists>payload. timeReport Api_js (pf\<lparr>offset := f\<rparr>) now timezone = Some payload
      \<and> json_field payload ''duration_since_utc'' = Some (JString (toHuman pf (Num 0)))" for f
    using a [of "pf\<lparr>offset := f\<rparr>"] by simp
  have c: "json_field payload ''duration_since_utc'' = Some (JString (toHuman pf (Num 0)))"
    if "onRequest_exit Api_js pf st request currentTime now = (Success payload, st')"
    for st request currentTime payload st'
    using onRequest_exit_success [OF that] by (rule computed_payload_duration)
  from a b c show ?thesis by blast
qed

text \<open>
  The theorem on a request for Pacific/Auckland, on a host that reports an offset of 780
  minutes.
\<close>

theorem duration_since_utc_zero_witness:
  "\<exists>payload st'.
      onRequest_exit Api_js luxon_platform initial_state
        (get_request [(''timezone'', ''Pacific/Auckland'')] ''1.2.3.4'') 1735686000123 1735686000124
        = (Success payload, st')
      \<and> offset luxon_platform (fromJSDate 1735686000124 ''Pacific/Auckland'') = Num 780
      \<and> json_field payload ''duration_since_utc'' = Some (JString ''0 milliseconds'')"
proof -
  let ?R = "get_request [(''timezone'', ''Pacific/Auckland'')] ''1.2.3.4''"
  let ?run = "onRequest_exit Api_js luxon_platform initial_state ?R 1735686000123 1735686000124"
  have "\<exists>payload. fst ?run = Success payload"
    by (simp add: onRequest_exit_def validate_and_compute_def cache_lookup_def rate_limit_def
        rateData_ref_def initial_state_def get_request_def client_ip_def searchParams_get_def
        has_timezonePattern_def luxon_platform_def fixed_platform_def timeReport_api_js_def
        RATE_LIMIT_WINDOW_MS_def RATE_LIMIT_MAX_REQUESTS_def Let_def)
  then obtain payload where p: "?run = (Success payload, snd ?run)"
    by (metis prod.collapse)
  from duration_since_utc_zero [of luxon_platform 1735686000124 "''Pacific/Auckland''"] p
  have "json_field payload ''duration_since_utc'' = Some (JString (toHuman luxon_platform (Num 0)))"
    by blast
  moreover have "toHuman luxon_platform (Num 0) = ''0 milliseconds''"
    by (simp add: luxon_platform_def)
  moreover have "offset luxon_platform (fromJSDate 1735686000124 ''Pacific/Auckland'') = Num 780"
    by (simp add: luxon_platform_def fixed_platform_def)
  ultimately show ?thesis using p by auto
qed

section \<open>What the structural pattern accepts\<close>

lemma nullable_lang: "nullable r \<longleftrightarrow> [] \<in> lang r"
  by (induction r) (auto simp: conc_def intro: star_empty)

lemma conc_Cons_iff:
  "c # w \<in> conc A B \<longleftrightarrow> (\<exists>u v. w = u @ v \<and> c # u \<in> A \<and> v \<in> B) \<or> ([] \<in> A \<and> c # w \<in> B)"
  by (auto simp: conc_def Cons_eq_append_conv)

lemma star_Cons_split:
  "x \<in> star A \<Longrightarrow> x = c # w \<Longrightarrow> \<exists>u v. w = u @ v \<and> c # u \<in> A \<and> v \<in> star A"
proof (induction arbitrary: w rule: star.induct)
  case star_empty
  then show ?case by simp
next
  case (star_step u v)
  show ?case
  proof (cases u)
    case Nil
    with star_step show ?thesis by simp
  next
    case (Cons a u')
    with star_step.prems have "a = c" "w = u' @ v" by simp_all
    with Cons star_step.hyps show ?thesis by blast
  qed
qed

lemma star_Cons_iff:
  "c # w \<in> star A \<longleftrightarrow> (\<exists>u v. w = u @ v \<and> c # u \<in> A \<and> v \<in> star A)"
proof
  assume "c # w \<in> star A"
  then show "\<exists>u v. w = u @ v \<and> c # u \<in> A \<and> v \<in> star A"
    by (rule star_Cons_split) simp
next
  assume "\<exists>u v. w = u @ v \<and> c # u \<in> A \<and> v \<in> star A"
  then obtain u v where "w = u @ v" "c # u \<in> A" "v \<in> star A" by blast
  then show "c # w \<in> star A"
    using star_step [of "c # u" A v] by simp
qed

lemma deriv_lang: "w \<in> lang (deriv c r) \<longleftrightarrow> c # w \<in> lang r"
proof (induction r arbitrary: w)
  case (Seq r s)
  then show ?case
    by (auto simp: conc_Cons_iff nullable_lang) (auto simp: conc_def)
next
  case (Star r)
  then show ?case
    by (auto simp: star_Cons_iff) (auto simp: conc_def)
qed auto

lemma matches_lang: "matches r w \<longleftrightarrow> w \<in> lang r"
  by (induction w arbitrary: r) (simp_all add: nullable_lang deriv_lang)

lemma star_atoms: "w \<in> star {[c] | c. p c} \<longleftrightarrow> (\<forall>c \<in> set w. p c)"
proof
  assume "w \<in> star {[c] | c. p c}"
  then show "\<forall>c \<in> set w. p c"
    by (induction rule: star.induct) auto
next
  assume "\<forall>c \<in> set w. p c"
  then show "w \<in> star {[c] | c. p c}"
  proof (induction w)
    case Nil
    show ?case by (rule star_empty)
  next
    case (Cons a w)
    then have "[a] \<in> {[c] | c. p c}" "w \<in> star {[c] | c. p c}" by auto
    from star_step [OF this] show ?case by simp
  qed
qed

lemma concI: "u \<in> A \<Longrightarrow> v \<in> B \<Longrightarrow> u @ v \<in> conc A B"
  by (auto simp: conc_def)

lemma lang_Plus_Atom: "lang (Plus (Atom p)) = {w. w \<noteq> [] \<and> (\<forall>c \<in> set w. p c)}"
proof -
  have "w \<in> lang (Plus (Atom p)) \<longleftrightarrow> w \<noteq> [] \<and> (\<forall>c \<in> set w. p c)" for w
  proof (cases w)
    case Nil
    then show ?thesis by (simp add: Plus_def conc_def)
  next
    case (Cons a w')
    have "a # w' \<in> conc {[c] | c. p c} (star {[c] | c. p c})
        \<longleftrightarrow> p a \<and> w' \<in> star {[c] | c. p c}"
      by (simp add: conc_Cons_iff)
    then show ?thesis by (simp add: Cons Plus_def star_atoms)
  qed
  then show ?thesis by blast
qed

lemma lang_timezonePattern:
  "lang timezonePattern =
     conc word_segments (conc {''/''} (conc word_segments (star (conc {''/''} word_segments))))"
  by (simp add: timezonePattern_def lang_Plus_Atom Lit_def word_segments_def)

lemma no_slash_in_word: "w \<in> word_segments \<Longrightarrow> CHR ''/'' \<notin> set w"
  by (auto simp: word_segments_def letter_or_underscore_def)

lemma split_slash_nonempty: "split_slash s \<noteq> []"
  by (induction s) (auto split: list.splits)

lemma split_slash_no_slash: "CHR ''/'' \<notin> set w \<Longrightarrow> split_slash w = [w]"
  by (induction w) auto

lemma split_slash_append:
  "CHR ''/'' \<notin> set w \<Longrightarrow> split_slash (w @ CHR ''/'' # rest) = w # split_slash rest"
  by (induction w) auto

lemma split_slash_tail:
  "t \<in> star (conc {''/''} word_segments) \<Longrightarrow>
     \<exists>segs. (\<forall>x \<in> set segs. x \<in> word_segments)
        \<and> (\<forall>w. CHR ''/'' \<notin> set w \<longrightarrow> split_slash (w @ t) = w # segs)"
proof (induction rule: star.induct)
  case star_empty
  show ?case by (rule exI [of _ "[]"]) (simp add: split_slash_no_slash)
next
  case (star_step u v)
  from star_step.hyps obtain w1 where u: "u = CHR ''/'' # w1" and w1: "w1 \<in> word_segments"
    by (auto simp: conc_def)
  from star_step.IH obtain segs where segs: "\<forall>x \<in> set segs. x \<in> word_segments"
    and tail: "\<forall>w. CHR ''/'' \<notin> set w \<longrightarrow> split_slash (w @ v) = w # segs"
    by blast
  have "split_slash (w @ u @ v) = w # w1 # segs" if "CHR ''/'' \<notin> set w" for w
    using that tail no_slash_in_word [OF w1] by (simp add: u split_slash_append)
  with segs w1 show ?case
    by (intro exI [of _ "w1 # segs"]) simp
qed

lemma join_Cons_Cons: "join sep ((c # x) # xs) = c # join sep (x # xs)"
  by (cases xs) simp_all

lemma join_split_slash: "join ''/'' (split_slash s) = s"
proof (induction s)
  case Nil
  show ?case by simp
next
  case (Cons c cs)
  obtain seg segs where sp: "split_slash cs = seg # segs"
    using split_slash_nonempty [of cs] by (cases "split_slash cs") auto
  with Cons show ?case by (simp add: join_Cons_Cons)
qed

lemma join_slash_concat:
  "join ''/'' (x # xs) = x @ concat (map (\<lambda>y. CHR ''/'' # y) xs)"
  by (induction xs arbitrary: x) simp_all

lemma concat_segments_star:
  "\<forall>x \<in> set xs. x \<in> word_segments \<Longrightarrow>
     concat (map (\<lambda>y. CHR ''/'' # y) xs) \<in> star (conc {''/''} word_segments)"
proof (induction xs)
  case Nil
  show ?case by (simp add: star_empty)
next
  case (Cons x xs)
  then have "CHR ''/'' # x \<in> conc {''/''} word_segments"
    by (auto simp: conc_def)
  moreover from Cons have "concat (map (\<lambda>y. CHR ''/'' # y) xs) \<in> star (conc {''/''} word_segments)"
    by simp
  ultimately have "(CHR ''/'' # x) @ concat (map (\<lambda>y. CHR ''/'' # y) xs)
      \<in> star (conc {''/''} word_segments)"
    by (rule star_step)
  then show ?case by simp
qed

lemma timezonePattern_shape: "timezonePattern_test s \<longleftrightarrow> region_city_shape s"
proof
  assume "timezonePattern_test s"
  then have "s \<in> lang timezonePattern"
    by (simp add: timezonePattern_test_def matches_lang)
  then obtain w1 w2 t where s: "s = w1 @ CHR ''/'' # w2 @ t"
    and w1: "w1 \<in> word_segments" and w2: "w2 \<in> word_segments"
    and t: "t \<in> star (conc {''/''} word_segments)"
    by (auto simp: lang_timezonePattern conc_def)
  from split_slash_tail [OF t] obtain segs where segs: "\<forall>x \<in> set segs. x \<in> word_segments"
    and tail: "\<forall>w. CHR ''/'' \<notin> set w \<longrightarrow> split_slash (w @ t) = w # segs"
    by blast
  have "split_slash s = w1 # w2 # segs"
    using tail no_slash_in_word [OF w1] no_slash_in_word [OF w2]
    by (simp add: s split_slash_append)
  with w1 w2 segs show "region_city_shape s"
    by (auto simp: region_city_shape_def word_segments_def)
next
  assume shape: "region_city_shape s"
  then obtain x1 x2 rest where sp: "split_slash s = x1 # x2 # rest"
    by (cases "split_slash s"; cases "tl (split_slash s)") (auto simp: region_city_shape_def)
  with shape have w: "x1 \<in> word_segments" "x2 \<in> word_segments" "\<forall>x \<in> set rest. x \<in> word_segments"
    by (auto simp: region_city_shape_def word_segments_def)
  have "s = join ''/'' (x1 # x2 # rest)"
    using join_split_slash [of s] by (simp add: sp)
  then have s: "s = x1 @ CHR ''/'' # x2 @ concat (map (\<lambda>y. CHR ''/'' # y) rest)"
    by (simp add: join_slash_concat)
  have "x2 @ concat (map (\<lambda>y. CHR ''/'' # y) rest)
      \<in> conc word_segments (star (conc {''/''} word_segments))"
    using w(2) concat_segments_star [OF w(3)] by (rule concI)
  then have "''/'' @ x2 @ concat (map (\<lambda>y. CHR ''/'' # y) rest)
      \<in> conc {''/''} (conc word_segments (star (conc {''/''} word_segments)))"
    by (rule concI [rotated]) simp
  with w(1) have "x1 @ ''/'' @ x2 @ concat (map (\<lambda>y. CHR ''/'' # y) rest) \<in> lang timezonePattern"
    unfolding lang_timezonePattern by (rule concI)
  then have "s \<in> lang timezonePattern" by (simp add: s)
  then show "timezonePattern_test s"
    by (simp add: timezonePattern_test_def matches_lang)
qed

lemma single_segment_rejected: "CHR ''/'' \<notin> set s \<Longrightarrow> \<not> region_city_shape s"
  by (simp add: region_city_shape_def split_slash_no_slash)

section \<open>The validation of the timezone parameter\<close>

lemma validate_and_compute_order:
  assumes "validate_and_compute v pf st request key currentTime utcDate = (e, st')"
    and "tz = searchParams_get (searchParams request) ''timezone''"
  shows "(tz = None \<or> tz = Some [] \<longrightarrow> e = Missing_timezone)
    \<and> (\<forall>timezone. tz = Some timezone \<and> timezone \<noteq> [] \<and> has_timezonePattern v
          \<and> \<not> timezonePattern_test timezone \<longrightarrow> e = Invalid_format)
    \<and> (\<forall>timezone. tz = Some timezone \<and> timezone \<noteq> []
          \<and> (has_timezonePattern v \<longrightarrow> timezonePattern_test timezone)
          \<and> timezone \<notin> set (supportedValuesOf_timeZone pf) \<longrightarrow> e = Invalid_timezone timezone)"
  using assms by (auto simp: validate_and_compute_def split: option.splits if_splits)

lemma empty_timezone_admitted:
  "method_name empty_timezone_request \<noteq> ''OPTIONS''
   \<and> cache_lookup initial_state (generateCacheKey (searchParams empty_timezone_request)) 0 = None
   \<and> \<not> fst (rate_limit initial_state (client_ip empty_timezone_request) 0)
   \<and> searchParams_get (searchParams empty_timezone_request) ''timezone'' = Some []"
  by (simp add: empty_timezone_request_def get_request_def cache_lookup_def initial_state_def
      rate_limit_def rateData_ref_def client_ip_def searchParams_get_def
      RATE_LIMIT_WINDOW_MS_def RATE_LIMIT_MAX_REQUESTS_def Let_def)

text \<open>
  Claim C7, as stated: a timezone parameter that is present and is not a supported zone
  gets the invalid-timezone response that echoes the value. In functions/api.js the
  request \<^verbatim>\<open>?timezone=\<close> has the parameter, with the empty string as its value, which
  is not a supported zone; \<^verbatim>\<open>!timezone\<close> holds for the empty string, and the response
  is the missing-parameter response.
\<close>

theorem empty_timezone_counterexample:
  "method_name empty_timezone_request \<noteq> ''OPTIONS''
   \<and> cache_lookup initial_state (generateCacheKey (searchParams empty_timezone_request)) 0 = None
   \<and> \<not> fst (rate_limit initial_state (client_ip empty_timezone_request) 0)
   \<and> searchParams_get (searchParams empty_timezone_request) ''timezone'' = Some []
   \<and> \<not> has_timezonePattern Api_js
   \<and> [] \<notin> set (supportedValuesOf_timeZone (fixed_platform [] NaN))
   \<and> fst (onRequest Api_js (fixed_platform [] NaN) initial_state empty_timezone_request 0 0)
       = respond Missing_timezone
   \<and> fst (onRequest Api_js (fixed_platform [] NaN) initial_state empty_timezone_request 0 0)
       \<noteq> respond (Invalid_timezone [])"
proof -
  have e: "fst (onRequest_exit Api_js (fixed_platform [] NaN) initial_state
      empty_timezone_request 0 0) = Missing_timezone"
    by code_simp
  have d: "respond Missing_timezone \<noteq> respond (Invalid_timezone [])"
    by (simp add: error_response_def)
  have s: "[] \<notin> set (supportedValuesOf_timeZone (fixed_platform [] NaN))"
    by (simp add: fixed_platform_def)
  from empty_timezone_admitted e d s show ?thesis
    by (simp add: onRequest_respond has_timezonePattern_def)
qed

text \<open>
  Claim C7, amended. For a request that is not a preflight, misses the cache and passes
  the rate limiter: if the \<open>timezone\<close> parameter is absent or empty, the handler
  responds 400 with the body \<^verbatim>\<open>{"error": "Missing 'timezone' query parameter."}\<close>; if
  it is present and not empty (and, in the files with the pre-filter, matches the
  pattern) but is not one of the platform's supported zones, the handler responds 400
  with the body that says \<^verbatim>\<open>Invalid timezone '<value>'. Please provide a valid IANA
  timezone identifier.\<close> and echoes the value. The checks run in the order presence,
  format, membership: a value that fails the pattern gets the invalid-format exit whether
  or not it is a supported zone. None of the three exits writes the cache.
\<close>

theorem timezone_validation_order:
  assumes "method_name request \<noteq> ''OPTIONS''"
    and "cache_lookup st (generateCacheKey (searchParams request)) currentTime = None"
    and "\<not> fst (rate_limit st (client_ip request) currentTime)"
    and "onRequest_exit v pf st request currentTime utcDate = (e, st')"
    and "tz = searchParams_get (searchParams request) ''timezone''"
  shows "(tz = None \<or> tz = Some [] \<longrightarrow>
            e = Missing_timezone
            \<and> fst (onRequest v pf st request currentTime utcDate)
                = \<lparr>status = 400,
                   headers = (''Content-Type'', ''application/json'') # corsHeaders,
                   body = JSON_stringify
                     (JObject [(''error'', JString ''Missing 'timezone' query parameter.'')])\<rparr>)
         \<and> (\<forall>timezone. tz = Some timezone \<and> timezone \<noteq> [] \<and> has_timezonePattern v
                \<and> \<not> timezonePattern_test timezone \<longrightarrow> e = Invalid_format)
         \<and> (\<forall>timezone. tz = Some timezone \<and> timezone \<noteq> []
                \<and> (has_timezonePattern v \<longrightarrow> timezonePattern_test timezone)
                \<and> timezone \<notin> set (supportedValuesOf_timeZone pf) \<longrightarrow>
            e = Invalid_timezone timezone
            \<and> fst (onRequest v pf st request currentTime utcDate)
                = \<lparr>status = 400,
                   headers = (''Content-Type'', ''application/json'') # corsHeaders,
                   body = JSON_stringify
                     (JObject [(''error'', JString (''Invalid timezone '' @ [CHR 0x27] @ timezone
                        @ [CHR 0x27] @ ''. Please provide a valid IANA timezone identifier.''))])\<rparr>)
         \<and> (e \<in> {Missing_timezone, Invalid_format} \<union> range Invalid_timezone
              \<longrightarrow> responseCache st' = responseCache st)"
proof -
  let ?rl = "rate_limit st (client_ip request) currentTime"
  have vc: "validate_and_compute v pf (snd ?rl) request
      (generateCacheKey (searchParams request)) currentTime utcDate = (e, st')"
    using assms(3,4) by (simp add: onRequest_exit_miss [OF assms(1,2)])
  have r: "fst (onRequest v pf st request currentTime utcDate) = respond e"
    using assms(4) by (simp add: onRequest_respond)
  have u: "e \<in> {Missing_timezone, Invalid_format} \<union> range Invalid_timezone
      \<longrightarrow> responseCache st' = responseCache st"
    using onRequest_exit_cache [OF assms(4)] by auto
  from validate_and_compute_order [OF vc assms(5)] u show ?thesis
    by (auto simp: r error_response_def)
qed

lemma timezone_request_admitted:
  "method_name (timezone_request timezone) \<noteq> ''OPTIONS''
   \<and> cache_lookup initial_state (generateCacheKey (searchParams (timezone_request timezone))) 0 = None
   \<and> \<not> fst (rate_limit initial_state (client_ip (timezone_request timezone)) 0)
   \<and> searchParams_get (searchParams (timezone_request timezone)) ''timezone'' = Some timezone"
  by (simp add: timezone_request_def get_request_def cache_lookup_def initial_state_def
      rate_limit_def rateData_ref_def client_ip_def searchParams_get_def
      RATE_LIMIT_WINDOW_MS_def RATE_LIMIT_MAX_REQUESTS_def Let_def)

text \<open>
  The theorem on the request \<^verbatim>\<open>?timezone=\<close> in functions/api.js, and on the unknown
  identifier \<^verbatim>\<open>Mars/Phobos\<close> in unnamed/part_000, which is echoed in the message.
\<close>

theorem timezone_validation_order_witness:
  "method_name empty_timezone_request \<noteq> ''OPTIONS''
   \<and> cache_lookup initial_state (generateCacheKey (searchParams empty_timezone_request)) 0 = None
   \<and> \<not> fst (rate_limit initial_state (client_ip empty_timezone_request) 0)
   \<and> searchParams_get (searchParams empty_timezone_request) ''timezone'' = Some []
   \<and> fst (onRequest_exit Api_js (fixed_platform [] NaN) initial_state empty_timezone_request 0 0)
       = Missing_timezone
   \<and> status (fst (onRequest Api_js (fixed_platform [] NaN) initial_state empty_timezone_request 0 0))
       = 400
   \<and> searchParams_get (searchParams (timezone_request ''Mars/Phobos'')) ''timezone''
       = Some ''Mars/Phobos''
   \<and> timezonePattern_test ''Mars/Phobos''
   \<and> ''Mars/Phobos'' \<notin> set (supportedValuesOf_timeZone (fixed_platform [] NaN))
   \<and> fst (onRequest_exit Part_000 (fixed_platform [] NaN) initial_state
        (timezone_request ''Mars/Phobos'') 0 0) = Invalid_timezone ''Mars/Phobos''
   \<and> body (fst (onRequest Part_000 (fixed_platform [] NaN) initial_state
        (timezone_request ''Mars/Phobos'') 0 0))
       = JSON_stringify (JObject [(''error'', JString
           (''Invalid timezone '' @ [CHR 0x27] @ ''Mars/Phobos'' @ [CHR 0x27]
            @ ''. Please provide a valid IANA timezone identifier.''))])"
proof -
  note a = empty_timezone_admitted
  note b = timezone_request_admitted [of "''Mars/Phobos''"]
  have t: "timezonePattern_test ''Mars/Phobos''" by code_simp
  have n: "''Mars/Phobos'' \<notin> set (supportedValuesOf_timeZone (fixed_platform [] NaN))"
    by (simp add: fixed_platform_def)
  from timezone_validation_order
    [OF a [THEN conjunct1] a [THEN conjunct2, THEN conjunct1]
      a [THEN conjunct2, THEN conjunct2, THEN conjunct1] prod.collapse [symmetric]
      a [THEN conjunct2, THEN conjunct2, THEN conjunct2, symmetric],
      of Api_js "fixed_platform [] NaN" 0]
  have r1: "fst (onRequest_exit Api_js (fixed_platform [] NaN) initial_state empty_timezone_request 0 0)
        = Missing_timezone
      \<and> status (fst (onRequest Api_js (fixed_platform [] NaN) initial_state
          empty_timezone_request 0 0)) = 400"
    by simp
  from timezone_validation_order
    [OF b [THEN conjunct1] b [THEN conjunct2, THEN conjunct1]
      b [THEN conjunct2, THEN conjunct2, THEN conjunct1] prod.collapse [symmetric]
      b [THEN conjunct2, THEN conjunct2, THEN conjunct2, symmetric],
      of Part_000 "fixed_platform [] NaN" 0] t n
  have r2: "fst (onRequest_exit Part_000 (fixed_platform [] NaN) initial_state
        (timezone_request ''Mars/Phobos'') 0 0) = Invalid_timezone ''Mars/Phobos''
      \<and> body (fst (onRequest Part_000 (fixed_platform [] NaN) initial_state
        (timezone_request ''Mars/Phobos'') 0 0))
       = JSON_stringify (JObject [(''error'', JString
           (''Invalid timezone '' @ [CHR 0x27] @ ''Mars/Phobos'' @ [CHR 0x27]
            @ ''. Please provide a valid IANA timezone identifier.''))])"
    by simp
  from a b t n r1 r2 show ?thesis by simp
qed

section \<open>The structural pre-filter\<close>

text \<open>
  Claim C8, as stated: in the files with the pre-filter every admitted request whose
  timezone value does not match the pattern gets the invalid-format response. The empty
  string does not match the pattern, and the request \<^verbatim>\<open>?timezone=\<close> gets the
  missing-parameter response: \<^verbatim>\<open>!timezone\<close> holds for the empty string, and that check
  comes first.
\<close>

theorem malformed_empty_timezone_counterexample:
  "has_timezonePattern Part_000
   \<and> method_name empty_timezone_request \<noteq> ''OPTIONS''
   \<and> cache_lookup initial_state (generateCacheKey (searchParams empty_timezone_request)) 0 = None
   \<and> \<not> fst (rate_limit initial_state (client_ip empty_timezone_request) 0)
   \<and> searchParams_get (searchParams empty_timezone_request) ''timezone'' = Some []
   \<and> \<not> timezonePattern_test []
   \<and> \<not> region_city_shape []
   \<and> fst (onRequest Part_000 (fixed_platform [] NaN) initial_state empty_timezone_request 0 0)
       = respond Missing_timezone
   \<and> fst (onRequest Part_000 (fixed_platform [] NaN) initial_state empty_timezone_request 0 0)
       \<noteq> respond Invalid_format"
proof -
  have e: "fst (onRequest_exit Part_000 (fixed_platform [] NaN) initial_state
      empty_timezone_request 0 0) = Missing_timezone"
    by code_simp
  have d: "respond Missing_timezone \<noteq> respond Invalid_format"
    by (simp add: error_response_def)
  have t: "\<not> timezonePattern_test []" by code_simp
  have s: "\<not> region_city_shape []" by (simp add: region_city_shape_def)
  from empty_timezone_admitted e d t s show ?thesis
    by (simp add: onRequest_respond has_timezonePattern_def)
qed

text \<open>
  Claim C8, amended. In unnamed/part_000 and unnamed/part_001, a request that is not a
  preflight, misses the cache and passes the rate limiter, and whose timezone value is
  not empty and is not of the shape of two or more nonempty segments of letters and
  underscores separated by \<open>/\<close> (in particular a value without a slash, such as
  \<^verbatim>\<open>UTC\<close> or \<^verbatim>\<open>GMT\<close>), fails the pattern and gets the 400 invalid-format response,
  whether or not the value is a supported zone; the cache is not written.
\<close>

theorem malformed_timezone_rejected:
  assumes "has_timezonePattern v"
    and "method_name request \<noteq> ''OPTIONS''"
    and "cache_lookup st (generateCacheKey (searchParams request)) currentTime = None"
    and "\<not> fst (rate_limit st (client_ip request) currentTime)"
    and "searchParams_get (searchParams request) ''timezone'' = Some timezone"
    and "timezone \<noteq> []"
    and "\<not> region_city_shape timezone \<or> CHR ''/'' \<notin> set timezone"
  shows "\<not> timezonePattern_test timezone
         \<and> fst (onRequest_exit v pf st request currentTime utcDate) = Invalid_format
         \<and> fst (onRequest v pf st request currentTime utcDate)
             = \<lparr>status = 400,
                headers = (''Content-Type'', ''application/json'') # corsHeaders,
                body = JSON_stringify (JObject [(''error'', JString
                  ''Invalid timezone format. Please provide a valid IANA timezone identifier.'')])\<rparr>
         \<and> responseCache (snd (onRequest_exit v pf st request currentTime utcDate))
             = responseCache st"
proof -
  let ?rl = "rate_limit st (client_ip request) currentTime"
  have t: "\<not> timezonePattern_test timezone"
    using assms(7) single_segment_rejected [of timezone] by (auto simp: timezonePattern_shape)
  have "onRequest_exit v pf st request currentTime utcDate
      = validate_and_compute v pf (snd ?rl) request
          (generateCacheKey (searchParams request)) currentTime utcDate"
    using assms(4) by (simp add: onRequest_exit_miss [OF assms(2,3)])
  also have "\<dots> = (Invalid_format, snd ?rl)"
    using assms(1,5,6) t by (simp add: validate_and_compute_def)
  finally have e: "onRequest_exit v pf st request currentTime utcDate = (Invalid_format, snd ?rl)" .
  then show ?thesis
    using t by (simp add: onRequest_respond error_response_def rate_limit_cache)
qed

text \<open>
  The theorem on \<^verbatim>\<open>UTC\<close> in unnamed/part_000, on a platform whose supported zones
  include \<^verbatim>\<open>UTC\<close>.
\<close>

theorem malformed_timezone_rejected_witness:
  "has_timezonePattern Part_000
   \<and> method_name (timezone_request ''UTC'') \<noteq> ''OPTIONS''
   \<and> cache_lookup initial_state (generateCacheKey (searchParams (timezone_request ''UTC''))) 0 = None
   \<and> \<not> fst (rate_limit initial_state (client_ip (timezone_request ''UTC'')) 0)
   \<and> searchParams_get (searchParams (timezone_request ''UTC'')) ''timezone'' = Some ''UTC''
   \<and> \<not> region_city_shape ''UTC''
   \<and> CHR ''/'' \<notin> set ''UTC''
   \<and> ''UTC'' \<in> set (supportedValuesOf_timeZone (fixed_platform [] NaN))
   \<and> fst (onRequest_exit Part_000 (fixed_platform [] NaN) initial_state (timezone_request ''UTC'') 0 0)
       = Invalid_format
   \<and> status (fst (onRequest Part_000 (fixed_platform [] NaN) initial_state
        (timezone_request ''UTC'') 0 0)) = 400"
proof -
  note a = timezone_request_admitted [of "''UTC''"]
  have v: "has_timezonePattern Part_000" by (simp add: has_timezonePattern_def)
  have n: "''UTC'' \<noteq> []" by simp
  have s: "\<not> region_city_shape ''UTC'' \<or> CHR ''/'' \<notin> set ''UTC''"
    by (simp add: region_city_shape_def)
  have m: "''UTC'' \<in> set (supportedValuesOf_timeZone (fixed_platform [] NaN))"
    by (simp add: fixed_platform_def)
  from malformed_timezone_rejected
    [OF v a [THEN conjunct1] a [THEN conjunct2, THEN conjunct1]
      a [THEN conjunct2, THEN conjunct2, THEN conjunct1]
      a [THEN conjunct2, THEN conjunct2, THEN conjunct2] n s,
      of "fixed_platform [] NaN" 0]
  have "fst (onRequest_exit Part_000 (fixed_platform [] NaN) initial_state
        (timezone_request ''UTC'') 0 0) = Invalid_format
      \<and> status (fst (onRequest Part_000 (fixed_platform [] NaN) initial_state
          (timezone_request ''UTC'') 0 0)) = 400"
    by simp
  with a v m show ?thesis by (simp add: region_city_shape_def)
qed

section \<open>The ISO week number of unnamed/part_000\<close>

text \<open>
  Claim C4 says that the reported week number is the ISO 8601 week of the local
  wall-clock date. \<^verbatim>\<open>getISOWeekNumber\<close> of unnamed/part_000 does not compute it, by
  two slips against its own comments.
  \<^item> Its comment says \<^verbatim>\<open>Set to nearest Thursday: current date + 4 - current day
    number\<close> with \<^verbatim>\<open>Sunday's day number 7\<close>, but \<^verbatim>\<open>(getUTCDay() + 6) % 7\<close> numbers
    Monday 0 and Sunday 6, so the date moves to the Friday of its week. In a week whose
    Thursday is December 31 the Friday is in the next year, and the week is counted
    from that year's week 1: the result is 0.
  \<^item> Its comment says \<^verbatim>\<open>Convert UTC date to target timezone's local time\<close>, but
    \<^verbatim>\<open>new Date(localISOString)\<close> reads the offset suffix of the string and gives back
    the UTC instant, so the week is that of the UTC date.

  The theorem evaluates the function at 2027-01-01T12:00:00.000Z in Europe/London (offset
  0, a Friday): it returns 0, which is the \<open>iso_week_number\<close> of the payload, and the
  ISO week of the local date is 53.
\<close>

theorem getISOWeekNumber_week_zero:
  "toISOString 1798804800000 = ''2027-01-01T12:00:00.000Z''
   \<and> getLocalISOString (fixed_platform (parts_of ''2027'' ''01'' ''01'' ''12'' ''00'' ''00'') NaN)
        1798804800000 ''Europe/London'' = Some ''2027-01-01T12:00:00+00:00''
   \<and> getISOWeekNumber (fixed_platform (parts_of ''2027'' ''01'' ''01'' ''12'' ''00'' ''00'') NaN)
        1798804800000 ''Europe/London'' = Some (Num 0)
   \<and> map_option (\<lambda>payload. json_field payload ''iso_week_number'')
        (timeReport Part_000 (fixed_platform (parts_of ''2027'' ''01'' ''01'' ''12'' ''00'' ''00'') NaN)
           1798804800000 ''Europe/London'') = Some (Some (JNumber (Num 0)))
   \<and> local_day 1798804800000 0 = days_from_civil 2027 1 1
   \<and> iso_week_of_day (local_day 1798804800000 0) = 53"
  by code_simp

text \<open>
  At 2025-01-05T23:00:00.000Z in Pacific/Auckland the local date is Monday 2025-01-06, in
  ISO week 2; the function returns 1, the week of the UTC date.
\<close>

lemma getISOWeekNumber_utc_date:
  "toISOString 1736118000000 = ''2025-01-05T23:00:00.000Z''
   \<and> getLocalISOString (fixed_platform (parts_of ''2025'' ''01'' ''06'' ''12'' ''00'' ''00'') NaN)
        1736118000000 ''Pacific/Auckland'' = Some ''2025-01-06T12:00:00+13:00''
   \<and> getISOWeekNumber (fixed_platform (parts_of ''2025'' ''01'' ''06'' ''12'' ''00'' ''00'') NaN)
        1736118000000 ''Pacific/Auckland'' = Some (Num 1)
   \<and> local_day 1736118000000 780 = days_from_civil 2025 1 6
   \<and> iso_week_of_day (local_day 1736118000000 780) = 2"
  by code_simp

text \<open>
  The example of the specification, 2024-12-31T23:00:00Z in Pacific/Auckland, does report
  week 1: the UTC date and the local date are in the same week.
\<close>

lemma getISOWeekNumber_spec_example:
  "toISOString 1735686000000 = ''2024-12-31T23:00:00.000Z''
   \<and> getLocalISOString (fixed_platform (parts_of ''2025'' ''01'' ''01'' ''12'' ''00'' ''00'') NaN)
        1735686000000 ''Pacific/Auckland'' = Some ''2025-01-01T12:00:00+13:00''
   \<and> getISOWeekNumber (fixed_platform (parts_of ''2025'' ''01'' ''01'' ''12'' ''00'' ''00'') NaN)
        1735686000000 ''Pacific/Auckland'' = Some (Num 1)
   \<and> iso_week_of_day (local_day 1735686000000 780) = 1"
  by code_simp

end
